theory Spec2Isabelle
  imports Main
begin

section \<open>Data model\<close>

text \<open>
  An lxml element as \<^verbatim>\<open>core.py\<close> uses it: a tag, the optional text before the first
  child, the optional tail after the element, the attributes in insertion order, and the
  children. Python's \<^verbatim>\<open>None\<close> for a missing text or tail is \<open>None\<close>; the field \<^verbatim>\<open>text\<close> is
  written \<open>text'\<close>.
\<close>

datatype element =
  Element (tag: string) (text': "string option") (tail: "string option")
          (attrib: "(string \<times> string) list") (children: "element list")

section \<open>Whitespace predicates\<close>

text \<open>
  \<^verbatim>\<open>should_have_space_prior(x)\<close>: \<^verbatim>\<open>not x\<close> holds for \<^verbatim>\<open>None\<close> and for the empty
  string; otherwise the first character is compared with a space and matched against the
  character class \<^verbatim>\<open>[\.\?\!\,\:\;\)]\<close>.
\<close>

fun should_have_space_prior :: "string option \<Rightarrow> bool" where
  "should_have_space_prior None = True"
| "should_have_space_prior (Some []) = True"
| "should_have_space_prior (Some (c # cs)) =
     (if c = CHR '' '' then False
      else if c \<in> set ''.?!,:;)'' then False
      else True)"

text \<open>
  \<^verbatim>\<open>should_have_space_next(x)\<close>: the same on the last character \<^verbatim>\<open>x[-1]\<close>, with the
  character class \<^verbatim>\<open>[\[\(]\<close>.
\<close>

definition should_have_space_next :: "string option \<Rightarrow> bool" where
  "should_have_space_next x =
     (case x of
        None \<Rightarrow> True
      | Some s \<Rightarrow>
          if s = [] then True
          else let c = last s in
            if c = CHR '' '' then False
            else if c \<in> set ''[('' then False
            else True)"

section \<open>Attributes\<close>

text \<open>
  \<^verbatim>\<open>element.get(name)\<close> and \<^verbatim>\<open>element.set(name, value)\<close>: lxml keeps the attributes in
  insertion order; setting an attribute that exists replaces its value in place.
\<close>

definition get :: "element \<Rightarrow> string \<Rightarrow> string option" where
  "get e name = map_of (attrib e) name"

fun update_attrib :: "string \<Rightarrow> string \<Rightarrow> (string \<times> string) list \<Rightarrow> (string \<times> string) list" where
  "update_attrib name v [] = [(name, v)]"
| "update_attrib name v ((k, w) # kvs) =
     (if k = name then (k, v) # kvs else (k, w) # update_attrib name v kvs)"

definition set_attrib :: "element \<Rightarrow> string \<Rightarrow> string \<Rightarrow> element" where
  "set_attrib e name v =
     Element (tag e) (text' e) (tail e) (update_attrib name v (attrib e)) (children e)"

text \<open>\<^verbatim>\<open>etree.Element(tag)\<close>: a fresh element without text, tail, attributes or children.\<close>

definition new_element :: "string \<Rightarrow> element" where
  "new_element t = Element t None None [] []"

text \<open>\<^verbatim>\<open>s.startswith(p)\<close>.\<close>

definition startswith :: "string \<Rightarrow> string \<Rightarrow> bool" where
  "startswith s p = (take (length p) s = p)"

section \<open>Images\<close>

text \<open>
  \<^verbatim>\<open>utils.is_image_file\<close> is not part of the sources at hand. It is a parameter here: a
  predicate \<open>is_img\<close> on strings (does the string carry an image file extension), lifted to
  Python's optional argument; an absent attribute is no image file.
\<close>

definition is_image_file :: "(string \<Rightarrow> bool) \<Rightarrow> string option \<Rightarrow> bool" where
  "is_image_file is_img v = (case v of None \<Rightarrow> False | Some u \<Rightarrow> is_img u)"

text \<open>
  The \<^verbatim>\<open>for attr in element.attrib\<close> loop of \<^verbatim>\<open>handle_image\<close>: the first attribute
  name that starts with \<^verbatim>\<open>data-src\<close> and whose value is an image file sets \<^verbatim>\<open>src\<close>,
  then the loop breaks.
\<close>

fun first_data_src :: "(string \<Rightarrow> bool) \<Rightarrow> element \<Rightarrow> string list \<Rightarrow> element \<Rightarrow> element" where
  "first_data_src is_img element [] processed_element = processed_element"
| "first_data_src is_img element (attr # attrs) processed_element =
     (if startswith attr ''data-src'' \<and> is_image_file is_img (get element attr)
      then set_attrib processed_element ''src'' (the (get element attr))
      else first_data_src is_img element attrs processed_element)"

text \<open>\<^verbatim>\<open>if element.get(name) is not None: processed_element.set(name, element.get(name))\<close>.\<close>

definition copy_attrib :: "element \<Rightarrow> string \<Rightarrow> element \<Rightarrow> element" where
  "copy_attrib element name processed_element =
     (case get element name of
        None \<Rightarrow> processed_element
      | Some v \<Rightarrow> set_attrib processed_element name v)"

text \<open>\<^verbatim>\<open>re.sub(r'^//', 'http://', url)\<close>: the pattern is anchored at the start of the string.\<close>

definition sub_protocol :: "string \<Rightarrow> string" where
  "sub_protocol url = (if startswith url ''//'' then ''http://'' @ drop 2 url else url)"

definition handle_image :: "(string \<Rightarrow> bool) \<Rightarrow> element \<Rightarrow> element option" where
  "handle_image is_img element =
     (let processed_element = new_element (tag element);
          processed_element =
            (if is_image_file is_img (get element ''data-src'')
             then set_attrib processed_element ''src'' (the (get element ''data-src''))
             else if is_image_file is_img (get element ''src'')
             then set_attrib processed_element ''src'' (the (get element ''src''))
             else first_data_src is_img element (map fst (attrib element)) processed_element);
          processed_element = copy_attrib element ''alt'' processed_element;
          processed_element = copy_attrib element ''class'' processed_element;
          processed_element = copy_attrib element ''title'' processed_element
      in if length (attrib processed_element) = 0
            \<or> get processed_element ''src'' = None \<or> get processed_element ''src'' = Some []
         then None
         else Some (set_attrib processed_element ''src''
                      (sub_protocol (the (get processed_element ''src'')))))"

text \<open>
  The source of an image in the words of the specification, to be compared with
  \<open>handle_image\<close>: the attribute \<^verbatim>\<open>data-src\<close> when the element has one with a value,
  then \<^verbatim>\<open>src\<close> in the same way, then the first attribute whose name starts with
  \<^verbatim>\<open>data-src\<close> and whose value is an image file. Only the third alternative asks for an
  image file.
\<close>

definition src_in_words :: "(string \<Rightarrow> bool) \<Rightarrow> element \<Rightarrow> string option" where
  "src_in_words is_img element =
     (if get element ''data-src'' \<noteq> None \<and> get element ''data-src'' \<noteq> Some []
      then get element ''data-src''
      else if get element ''src'' \<noteq> None \<and> get element ''src'' \<noteq> Some []
      then get element ''src''
      else case find (\<lambda>name. startswith name ''data-src'' \<and> is_image_file is_img (get element name))
                  (map fst (attrib element)) of
             None \<Rightarrow> None
           | Some name \<Rightarrow> get element name)"

text \<open>
  A stand-in for the image-extension test, used on concrete inputs: the string ends in
  \<^verbatim>\<open>.jpg\<close>.
\<close>

definition ends_with_jpg :: "string \<Rightarrow> bool" where
  "ends_with_jpg u = (take 4 (rev u) = ''gpj.'')"

section \<open>Tree traversal and text\<close>

text \<open>
  \<^verbatim>\<open>element.iter()\<close>: the element itself and its descendants in document order;
  \<^verbatim>\<open>iter(tag, ...)\<close> keeps the elements with one of the tags. The path expressions
  \<^verbatim>\<open>.//tag\<close> of \<^verbatim>\<open>find\<close> and \<^verbatim>\<open>iterfind\<close> range over the descendants only.
\<close>

fun iter_all :: "element \<Rightarrow> element list" where
  "iter_all (Element t tx ta a cs) = Element t tx ta a cs # concat (map iter_all cs)"

definition iter_tags :: "string list \<Rightarrow> element \<Rightarrow> element list" where
  "iter_tags tags e = filter (\<lambda>x. tag x \<in> set tags) (iter_all e)"

definition descendants :: "element \<Rightarrow> element list" where
  "descendants e = concat (map iter_all (children e))"

text \<open>Python's \<^verbatim>\<open>x or ''\<close> on an optional string, and the strings an optional text yields.\<close>

definition str_of :: "string option \<Rightarrow> string" where
  "str_of x = (case x of None \<Rightarrow> [] | Some s \<Rightarrow> s)"

definition opt_list :: "string option \<Rightarrow> string list" where
  "opt_list x = (case x of None \<Rightarrow> [] | Some s \<Rightarrow> [s])"

text \<open>
  \<^verbatim>\<open>element.itertext()\<close>: the text of the element, then for each child its own
  \<^verbatim>\<open>itertext()\<close> followed by its tail; the tail of the element itself is left out.
  \<^verbatim>\<open>element.text_content()\<close> is the concatenation of the same strings.
\<close>

fun itertext :: "element \<Rightarrow> string list" where
  "itertext (Element t tx ta a cs) =
     opt_list tx @ concat (map (\<lambda>c. itertext c @ opt_list (tail c)) cs)"

definition text_content :: "element \<Rightarrow> string" where
  "text_content e = concat (itertext e)"

text \<open>\<^verbatim>\<open>sep.join(strings)\<close>.\<close>

fun join :: "string \<Rightarrow> string list \<Rightarrow> string" where
  "join sep [] = []"
| "join sep [s] = s"
| "join sep (s # t # ss) = s @ sep @ join sep (t # ss)"

text \<open>\<^verbatim>\<open>parent.append(child)\<close>; the appended child keeps its tail.\<close>

definition append_elem :: "element \<Rightarrow> element \<Rightarrow> element" where
  "append_elem parent child =
     Element (tag parent) (text' parent) (tail parent) (attrib parent) (children parent @ [child])"

definition set_text :: "element \<Rightarrow> string option \<Rightarrow> element" where
  "set_text e v = Element (tag e) v (tail e) (attrib e) (children e)"

section \<open>Strings and the JSON pattern of the baseline\<close>

text \<open>\<^verbatim>\<open>p in s\<close> for strings: \<open>p\<close> occurs in \<open>s\<close>.\<close>

fun contains :: "string \<Rightarrow> string \<Rightarrow> bool" where
  "contains [] p = (p = [])"
| "contains (c # cs) p = (startswith (c # cs) p \<or> contains cs p)"

text \<open>
  Case-insensitive comparison for \<^verbatim>\<open>re.I\<close>, on the ASCII letters: the pattern below is
  in lower case, and a character of the text matches a pattern character when its lower-case
  form does.
\<close>

definition lower :: "char \<Rightarrow> char" where
  "lower c = (let n = (of_char c :: nat) in if 65 \<le> n \<and> n \<le> 90 then char_of (n + 32) else c)"

fun match_prefix_ci :: "string \<Rightarrow> string \<Rightarrow> string option" where
  "match_prefix_ci s [] = Some s"
| "match_prefix_ci [] (p # ps) = None"
| "match_prefix_ci (c # cs) (p # ps) = (if lower c = p then match_prefix_ci cs ps else None)"

text \<open>
  The lazy group \<^verbatim>\<open>(.+?)\<close> followed by \<^verbatim>\<open>","\<close>: at least one character, none of them
  a newline, as few as possible, up to the first place where \<^verbatim>\<open>","\<close> follows.
\<close>

fun lazy_group :: "string \<Rightarrow> string option" where
  "lazy_group [] = None"
| "lazy_group (c # cs) =
     (if c = CHR 0x0A then None
      else if startswith cs [CHR 0x22, CHR '','', CHR 0x22] then Some [c]
      else map_option ((#) c) (lazy_group cs))"

text \<open>
  \<^verbatim>\<open>re.search(r'"articlebody":"(.+?)","', s, re.I)\<close>: the leftmost position where the
  pattern matches; the result is \<^verbatim>\<open>group(1)\<close>, \<open>None\<close> when there is no match.
\<close>

definition articlebody_prefix :: string where
  "articlebody_prefix = CHR 0x22 # ''articlebody'' @ [CHR 0x22, CHR '':'', CHR 0x22]"

fun search_articlebody :: "string \<Rightarrow> string option" where
  "search_articlebody [] = None"
| "search_articlebody (c # cs) =
     (case match_prefix_ci (c # cs) articlebody_prefix of
        None \<Rightarrow> search_articlebody cs
      | Some rest \<Rightarrow>
          (case lazy_group rest of
             None \<Rightarrow> search_articlebody cs
           | Some g \<Rightarrow> Some g))"

text \<open>\<^verbatim>\<open>s.replace('\\"', '"')\<close>: every backslash followed by a quote becomes a quote.\<close>

fun replace_escaped_quote :: "string \<Rightarrow> string" where
  "replace_escaped_quote (a # b # cs) =
     (if a = CHR 0x5C \<and> b = CHR 0x22 then CHR 0x22 # replace_escaped_quote cs
      else a # replace_escaped_quote (b # cs))"
| "replace_escaped_quote cs = cs"

section \<open>Baseline extraction\<close>

text \<open>
  Python values. The two last components of the result of \<^verbatim>\<open>baseline\<close> are a
  string and an integer, in an order that depends on the return path; the values of the
  metadata dictionary are strings, elements or \<^verbatim>\<open>None\<close>.
\<close>

datatype pyval = PyNone | PyStr string | PyInt int | PyElem element

text \<open>
  The first loop of \<^verbatim>\<open>baseline\<close>, over the \<^verbatim>\<open>ld+json\<close> scripts: the first script whose
  text matches the pattern returns from the function. \<^verbatim>\<open>utils.trim\<close> is not part of the
  sources at hand and is the parameter \<open>trim\<close>.
\<close>

fun scrape_json :: "(string \<Rightarrow> string) \<Rightarrow> element list \<Rightarrow> (element \<times> pyval \<times> pyval) option" where
  "scrape_json trim [] = None"
| "scrape_json trim (elem # elems) =
     (if text' elem \<noteq> None \<and> text' elem \<noteq> Some []
         \<and> contains (str_of (text' elem)) (CHR 0x22 # ''article'')
      then (case search_articlebody (str_of (text' elem)) of
              None \<Rightarrow> scrape_json trim elems
            | Some g \<Rightarrow>
                (let postbody = new_element ''body'';
                     t = trim (replace_escaped_quote g);
                     elem = set_text (new_element ''p'') (Some t);
                     postbody = append_elem postbody elem
                 in Some (postbody, PyStr t, PyInt (int (length t)))))
      else scrape_json trim elems)"

text \<open>
  The last loop of \<^verbatim>\<open>baseline\<close>: one \<^verbatim>\<open>p\<close> per text content not seen before. The
  state of the loop is the body and the set of the entries seen.
\<close>

fun scrape_paragraphs :: "element list \<Rightarrow> element \<times> string set \<Rightarrow> element \<times> string set" where
  "scrape_paragraphs [] (postbody, results) = (postbody, results)"
| "scrape_paragraphs (element # elements) (postbody, results) =
     (let entry = text_content element
      in if entry \<notin> results
         then scrape_paragraphs elements
                (append_elem postbody (set_text (new_element ''p'') (Some entry)),
                 insert entry results)
         else scrape_paragraphs elements (postbody, results))"

definition is_ld_json :: "element \<Rightarrow> bool" where
  "is_ld_json e = (tag e = ''script'' \<and> get e ''type'' = Some ''application/ld+json'')"

text \<open>
  \<^verbatim>\<open>baseline(filecontent)\<close>. The HTML loader \<^verbatim>\<open>utils.load_html\<close> is the parameter
  \<open>load_html\<close>; it returns \<open>None\<close> when it cannot parse its input.
\<close>

definition baseline ::
  "(string \<Rightarrow> string) \<Rightarrow> ('fc \<Rightarrow> element option) \<Rightarrow> 'fc \<Rightarrow> element \<times> pyval \<times> pyval" where
  "baseline trim load_html filecontent =
     (let postbody = new_element ''body''
      in case load_html filecontent of
           None \<Rightarrow> (postbody, PyInt 0, PyStr [])
         | Some tree \<Rightarrow>
             (case scrape_json trim (filter is_ld_json (descendants tree)) of
                Some r \<Rightarrow> r
              | None \<Rightarrow>
                  (let article_elem = find (\<lambda>e. tag e = ''article'') (descendants tree);
                       temp_text = (case article_elem of
                                      None \<Rightarrow> []
                                    | Some a \<Rightarrow> trim (text_content a))
                   in if article_elem \<noteq> None \<and> length temp_text > 0
                      then (append_elem postbody (set_text (new_element ''p'') (Some temp_text)),
                            PyStr temp_text, PyInt (int (length temp_text)))
                      else
                        (let postbody =
                               fst (scrape_paragraphs
                                      (iter_tags [''blockquote'', ''code'', ''p'', ''pre'', ''q'',
                                                  ''quote''] tree)
                                      (postbody, {}));
                             temp_text = trim (join [CHR 0x0A] (itertext postbody))
                         in (postbody, PyStr temp_text, PyInt (int (length temp_text)))))))"

text \<open>
  A stand-in for \<^verbatim>\<open>utils.trim\<close>, used on concrete inputs: the words of the string,
  separated by single spaces (\<^verbatim>\<open>' '.join(s.split())\<close>).
\<close>

definition is_space :: "char \<Rightarrow> bool" where
  "is_space c = (c \<in> {CHR '' '', CHR 0x09, CHR 0x0A, CHR 0x0B, CHR 0x0C, CHR 0x0D})"

fun split_words :: "string \<Rightarrow> string \<Rightarrow> string list" where
  "split_words w [] = (if w = [] then [] else [w])"
| "split_words w (c # cs) =
     (if is_space c then (if w = [] then split_words [] cs else w # split_words [] cs)
      else split_words (w @ [c]) cs)"

definition trim_words :: "string \<Rightarrow> string" where
  "trim_words s = join '' '' (split_words [] s)"

text \<open>
  The document \<^verbatim>\<open><script type="application/ld+json">{"articleBody":"X"}</script>\<close> as
  the HTML parser builds it: the script is placed in the head of the document, and its
  text is the JSON string.
\<close>

definition only_articlebody_json :: string where
  "only_articlebody_json =
     [CHR ''{'', CHR 0x22] @ ''articleBody'' @ [CHR 0x22, CHR '':'', CHR 0x22] @ ''X''
       @ [CHR 0x22, CHR ''}'']"

definition only_articlebody_doc :: element where
  "only_articlebody_doc =
     Element ''html'' None None []
       [Element ''head'' None None []
          [Element ''script'' (Some only_articlebody_json) None
             [(''type'', ''application/ld+json'')] []]]"

text \<open>
  The same document with a second member after \<^verbatim>\<open>articleBody\<close>:
  \<^verbatim>\<open>{"articleBody":"X","a":1}\<close>.
\<close>

definition two_member_doc :: element where
  "two_member_doc =
     Element ''html'' None None []
       [Element ''head'' None None []
          [Element ''script''
             (Some ([CHR ''{'', CHR 0x22] @ ''articleBody'' @ [CHR 0x22, CHR '':'', CHR 0x22]
                    @ ''X'' @ [CHR 0x22, CHR '','', CHR 0x22] @ ''a''
                    @ [CHR 0x22, CHR '':'', CHR ''1'', CHR ''}'']))
             None [(''type'', ''application/ld+json'')] []]]"

section \<open>Configuration and collaborators\<close>

text \<open>
  The options of the \<^verbatim>\<open>DEFAULT\<close> section that \<^verbatim>\<open>core.py\<close> reads with
  \<^verbatim>\<open>config.getint\<close>.
\<close>

record config =
  MIN_EXTRACTED_SIZE :: int
  MIN_EXTRACTED_COMM_SIZE :: int
  MIN_OUTPUT_SIZE :: int
  MIN_OUTPUT_COMM_SIZE :: int

text \<open>
  The collaborators of the arbiter, which live in \<^verbatim>\<open>external.py\<close> and \<^verbatim>\<open>utils.py\<close>
  and are not part of the sources at hand, are parameters: \<^verbatim>\<open>trim\<close>,
  \<^verbatim>\<open>try_readability(tree, url)\<close>,
  \<^verbatim>\<open>justext_rescue(tree, url, target_language, body, len_text, text)\<close>,
  \<^verbatim>\<open>sanitize_tree(body, include_formatting, include_links, include_images,
  include_tables)\<close>, and the nodes that the path expression \<^verbatim>\<open>SANITIZED_XPATH\<close> selects
  in a body.
\<close>

record external =
  ext_trim :: "string \<Rightarrow> string"
  ext_try_readability :: "element \<Rightarrow> string option \<Rightarrow> element"
  ext_justext_rescue ::
    "element \<Rightarrow> string option \<Rightarrow> string option \<Rightarrow> element \<Rightarrow> int \<Rightarrow> string
       \<Rightarrow> element \<times> string \<times> int \<times> bool"
  ext_sanitize_tree :: "element \<Rightarrow> bool \<Rightarrow> bool \<Rightarrow> bool \<Rightarrow> bool \<Rightarrow> element \<times> string \<times> int"
  ext_sanitized_xpath :: "element \<Rightarrow> element list"

section \<open>Path expressions on a body\<close>

text \<open>
  The body handed to \<^verbatim>\<open>compare_extraction\<close> is the root of its own tree, so the absolute
  expressions \<^verbatim>\<open>//p\<close> and \<^verbatim>\<open>//table\<close> select the elements with that tag anywhere in
  the body. The relative expression \<^verbatim>\<open>quote//text()\<close> selects the text nodes below the
  \<^verbatim>\<open>quote\<close> children of the body: the text of such a child and the texts and tails of
  its descendants.
\<close>

definition xpath_all :: "string \<Rightarrow> element \<Rightarrow> element list" where
  "xpath_all t body = filter (\<lambda>e. tag e = t) (iter_all body)"

definition xpath_quote_text :: "element \<Rightarrow> string list" where
  "xpath_quote_text body = concat (map itertext (filter (\<lambda>e. tag e = ''quote'') (children body)))"

text \<open>
  \<^verbatim>\<open>not body.xpath('//p|quote//text()')\<close>: the union binds weaker than the paths, so the
  node set is empty when there is no \<^verbatim>\<open>p\<close> element and no text below a \<^verbatim>\<open>quote\<close>
  child.
\<close>

definition no_p_or_quote_text :: "element \<Rightarrow> bool" where
  "no_p_or_quote_text body = (xpath_all ''p'' body = [] \<and> xpath_quote_text body = [])"

section \<open>The arbiter\<close>

text \<open>
  The value of \<^verbatim>\<open>algo_flag\<close> in \<^verbatim>\<open>compare_extraction\<close> after the chain of conditions
  on the two lengths.
\<close>

definition algo_flag :: "config \<Rightarrow> element \<Rightarrow> int \<Rightarrow> int \<Rightarrow> bool" where
  "algo_flag cfg body len_text len_algo =
     (if len_algo = 0 \<or> len_algo = len_text then False
      else if len_text = 0 \<and> len_algo > 0 then True
      else if len_text > 2 * len_algo then False
      else if len_algo > 2 * len_text then True
      else if no_p_or_quote_text body \<and> len_algo > MIN_EXTRACTED_SIZE cfg * 2 then True
      else if length (xpath_all ''table'' body) > length (xpath_all ''p'' body)
              \<and> len_algo > MIN_EXTRACTED_SIZE cfg * 2 then True
      else False)"

text \<open>
  The part of \<^verbatim>\<open>compare_extraction\<close> after the decision is applied: the override
  with the paragraph classifier, and the sanitizer when the generic algorithm was chosen and
  the paragraph classifier did not succeed.
\<close>

definition rescue ::
  "external \<Rightarrow> config \<Rightarrow> element \<Rightarrow> string option \<Rightarrow> string option \<Rightarrow> bool
     \<Rightarrow> bool \<Rightarrow> bool \<Rightarrow> bool \<Rightarrow> bool \<Rightarrow> bool \<Rightarrow> element \<times> string \<times> int
     \<Rightarrow> element \<times> string \<times> int" where
  "rescue ext cfg tree url target_language favor_recall include_formatting include_links
          include_images include_tables flag chosen =
     (case chosen of (body, txt, len_text) \<Rightarrow>
        (case
           (if ext_sanitized_xpath ext body \<noteq> [] \<and> len_text < MIN_EXTRACTED_SIZE cfg * 10
            then (case ext_justext_rescue ext tree url target_language body 0 [] of
                    (body2, text2, len_text2, jt_result) \<Rightarrow>
                      if jt_result \<and> \<not> len_text > 2 * len_text2
                      then (body2, text2, len_text2, jt_result)
                      else (body, txt, len_text, jt_result))
            else if len_text < MIN_EXTRACTED_SIZE cfg \<or> favor_recall
            then ext_justext_rescue ext tree url target_language body len_text txt
            else (body, txt, len_text, False))
         of (body, txt, len_text, jt_result) \<Rightarrow>
           if flag \<and> \<not> jt_result
           then ext_sanitize_tree ext body include_formatting include_links include_images
                  include_tables
           else (body, txt, len_text)))"

text \<open>
  \<^verbatim>\<open>compare_extraction\<close>. The argument \<open>favor_precision\<close> is not read.
\<close>

definition compare_extraction ::
  "external \<Rightarrow> config \<Rightarrow> element \<Rightarrow> element \<Rightarrow> string option \<Rightarrow> element \<Rightarrow> string \<Rightarrow> int
     \<Rightarrow> string option \<Rightarrow> bool \<Rightarrow> bool \<Rightarrow> bool \<Rightarrow> bool \<Rightarrow> bool \<Rightarrow> bool
     \<Rightarrow> element \<times> string \<times> int" where
  "compare_extraction ext cfg tree backup_tree url body txt len_text target_language
       favor_precision favor_recall include_formatting include_links include_images
       include_tables =
     (if favor_recall \<and> len_text > MIN_EXTRACTED_SIZE cfg * 10 then (body, txt, len_text)
      else
        (let temppost_algo = ext_try_readability ext backup_tree url;
             algo_text = ext_trim ext (join '' '' (itertext temppost_algo));
             len_algo = int (length algo_text);
             flag = algo_flag cfg body len_text len_algo
         in rescue ext cfg tree url target_language favor_recall include_formatting
              include_links include_images include_tables flag
              (if flag then (temppost_algo, algo_text, len_algo) else (body, txt, len_text))))"

text \<open>
  The step ``compare if necessary'' of \<^verbatim>\<open>bare_extraction\<close> (lines 966 to 975), on the
  result \<^verbatim>\<open>(postbody, temp_text, len_text, sure_thing)\<close> of \<^verbatim>\<open>extract_content\<close>.
  The backup tree is only read when \<open>no_fallback\<close> is false, where it is a deep copy of
  the tree. The result of \<open>baseline\<close> is bound without a check, so the text and the
  length are Python values. Next to the triple, the model returns the calls that the step
  makes, in order.
\<close>

datatype call = CallCompareExtraction | CallBaseline

definition compare_if_necessary ::
  "external \<Rightarrow> config \<Rightarrow> ('fc \<Rightarrow> element option) \<Rightarrow> 'fc \<Rightarrow> element \<Rightarrow> element
     \<Rightarrow> string option \<Rightarrow> bool \<Rightarrow> string option \<Rightarrow> bool \<Rightarrow> bool \<Rightarrow> bool \<Rightarrow> bool \<Rightarrow> bool
     \<Rightarrow> bool \<Rightarrow> element \<times> string \<times> int \<times> bool \<Rightarrow> (element \<times> pyval \<times> pyval) \<times> call list" where
  "compare_if_necessary ext cfg load_html filecontent tree backup_tree url no_fallback
       target_language favor_precision favor_recall include_formatting include_links
       include_images include_tables extracted =
     (case extracted of (postbody, temp_text, len_text, sure_thing) \<Rightarrow>
        if \<not> no_fallback
        then (case compare_extraction ext cfg tree backup_tree url postbody temp_text len_text
                     target_language favor_precision favor_recall include_formatting
                     include_links include_images include_tables of
                (postbody, temp_text, len_text) \<Rightarrow>
                  if length (children postbody) = 0
                  then (baseline (ext_trim ext) load_html filecontent,
                        [CallCompareExtraction, CallBaseline])
                  else ((postbody, PyStr temp_text, PyInt len_text), [CallCompareExtraction]))
        else if \<not> sure_thing \<and> len_text < MIN_EXTRACTED_SIZE cfg
        then (baseline (ext_trim ext) load_html filecontent, [CallBaseline])
        else ((postbody, PyStr temp_text, PyInt len_text), []))"

section \<open>The arbiter in the words of the specification\<close>

text \<open>
  ``The custom body has no \<^verbatim>\<open>p\<close>/\<^verbatim>\<open>quote\<close> text'': the text inside the elements
  tagged \<^verbatim>\<open>p\<close> or \<^verbatim>\<open>quote\<close>, anywhere in the body, is empty.
\<close>

definition p_quote_text :: "element \<Rightarrow> string" where
  "p_quote_text body =
     concat (map text_content (filter (\<lambda>e. tag e = ''p'' \<or> tag e = ''quote'') (iter_all body)))"

text \<open>
  The decision table of the specification, read in order, with the lengths \<open>L1\<close> of the
  custom text and \<open>L2\<close> of the readability text: true when readability is adopted.
\<close>

definition table_adopts_readability :: "config \<Rightarrow> element \<Rightarrow> int \<Rightarrow> int \<Rightarrow> bool" where
  "table_adopts_readability cfg body L1 L2 =
     (if L2 = 0 \<or> L2 = L1 then False
      else if L1 = 0 \<and> L2 > 0 then True
      else if L1 > 2 * L2 then False
      else if L2 > 2 * L1 then True
      else L2 > 2 * MIN_EXTRACTED_SIZE cfg
           \<and> (p_quote_text body = []
              \<or> length (xpath_all ''table'' body) > length (xpath_all ''p'' body)))"

section \<open>Concrete inputs\<close>

text \<open>The default thresholds of the configuration file of the package.\<close>

definition default_config :: config where
  "default_config =
     \<lparr>MIN_EXTRACTED_SIZE = 250, MIN_EXTRACTED_COMM_SIZE = 1, MIN_OUTPUT_SIZE = 1,
      MIN_OUTPUT_COMM_SIZE = 1\<rparr>"

text \<open>
  Collaborators for concrete runs: the readability extractor returns a given body, the
  paragraph classifier finds nothing better and returns what it was given, the sanitizer
  leaves the body as it is and returns its trimmed text, and no node matches
  \<^verbatim>\<open>SANITIZED_XPATH\<close>.
\<close>

definition plain_external :: "element \<Rightarrow> external" where
  "plain_external readable =
     \<lparr>ext_trim = trim_words,
      ext_try_readability = (\<lambda>tree url. readable),
      ext_justext_rescue = (\<lambda>tree url lang body len_text txt. (body, txt, len_text, False)),
      ext_sanitize_tree = (\<lambda>body f l i t.
         (body, trim_words (join '' '' (itertext body)),
          int (length (trim_words (join '' '' (itertext body)))))),
      ext_sanitized_xpath = (\<lambda>body. [])\<rparr>"

text \<open>
  A custom result of 600 characters in a list, followed by a paragraph that holds an image
  only, and a readability result of 700 characters.
\<close>

definition list_and_image_body :: element where
  "list_and_image_body =
     Element ''body'' None None []
       [Element ''list'' None None []
          [Element ''item'' (Some (replicate 600 CHR ''a'')) None [] []],
        Element ''p'' None None []
          [Element ''graphic'' None None [(''src'', ''a.jpg'')] []]]"

definition readable_700 :: element where
  "readable_700 =
     Element ''body'' None None [] [Element ''p'' (Some (replicate 700 CHR ''b'')) None [] []]"

definition empty_doc :: element where
  "empty_doc = Element ''html'' None None [] []"

text \<open>
  A custom result of 3000 characters in one paragraph, and a readability result of 7000
  characters.
\<close>

definition custom_3000 :: element where
  "custom_3000 =
     Element ''body'' None None [] [Element ''p'' (Some (replicate 3000 CHR ''a'')) None [] []]"

definition readable_7000 :: element where
  "readable_7000 =
     Element ''body'' None None [] [Element ''p'' (Some (replicate 7000 CHR ''b'')) None [] []]"

text \<open>
  The document \<^verbatim>\<open><html><body><p>Hi</p></body></html>\<close>, and the result of the
  content extractor on it: the paragraph is recovered, the text is shorter than
  \<^verbatim>\<open>MIN_EXTRACTED_SIZE\<close>, and \<^verbatim>\<open>sure_thing\<close> is false.
\<close>

definition short_doc :: element where
  "short_doc =
     Element ''html'' None None []
       [Element ''body'' None None [] [Element ''p'' (Some ''Hi'') None [] []]]"

definition short_body :: element where
  "short_body = Element ''body'' None None [] [Element ''p'' (Some ''Hi'') None [] []]"

section \<open>Link-density pruning\<close>

text \<open>
  An element of a tree is identified by its path from the root: the positions of the
  children to follow. \<open>iter_paths\<close> is \<^verbatim>\<open>subtree.iter()\<close> with the path of each element.
\<close>

type_synonym path = "nat list"

fun iter_paths :: "path \<Rightarrow> element \<Rightarrow> (path \<times> element) list"
  and iter_paths_list :: "path \<Rightarrow> nat \<Rightarrow> element list \<Rightarrow> (path \<times> element) list" where
  "iter_paths pre (Element t tx ta a cs) =
     (pre, Element t tx ta a cs) # iter_paths_list pre 0 cs"
| "iter_paths_list pre i [] = []"
| "iter_paths_list pre i (c # cs) = iter_paths (pre @ [i]) c @ iter_paths_list pre (Suc i) cs"

text \<open>
  \<^verbatim>\<open>myelems[text] = [elem]\<close> for a new key, \<^verbatim>\<open>myelems[text].append(elem)\<close> otherwise;
  the dictionary keeps the keys in the order of their insertion.
\<close>

fun add_elem :: "string \<Rightarrow> path \<Rightarrow> (string \<times> path list) list \<Rightarrow> (string \<times> path list) list" where
  "add_elem k p [] = [(k, [p])]"
| "add_elem k p ((k', ps) # m) =
     (if k' = k then (k', ps @ [p]) # m else (k', ps) # add_elem k p m)"

text \<open>
  The first loop of \<^verbatim>\<open>delete_by_link_density\<close>. The collaborator
  \<^verbatim>\<open>link_density_test\<close> is a parameter; it is given the element with its path, since
  it may look at the surroundings of the element. The state of the loop is the pair of
  \<^verbatim>\<open>myelems\<close> and \<^verbatim>\<open>deletions\<close>.
\<close>

fun collect ::
  "(path \<times> element \<Rightarrow> bool \<times> string list) \<Rightarrow> (string \<Rightarrow> string) \<Rightarrow> bool
     \<Rightarrow> (path \<times> element) list \<Rightarrow> (string \<times> path list) list \<times> path list
     \<Rightarrow> (string \<times> path list) list \<times> path list" where
  "collect link_density_test trim backtracking [] (myelems, deletions) = (myelems, deletions)"
| "collect link_density_test trim backtracking (elem # elems) (myelems, deletions) =
     (case link_density_test elem of
        (result, templist) \<Rightarrow>
          if result
          then collect link_density_test trim backtracking elems
                 (myelems, deletions @ [fst elem])
          else if backtracking \<and> length templist > 0
          then collect link_density_test trim backtracking elems
                 (add_elem (trim (text_content (snd elem))) (fst elem) myelems, deletions)
          else collect link_density_test trim backtracking elems (myelems, deletions))"

text \<open>The loop ``summing up'' over \<^verbatim>\<open>myelems.items()\<close>.\<close>

fun summing_up :: "(string \<times> path list) list \<Rightarrow> path list \<Rightarrow> path list" where
  "summing_up [] deletions = deletions"
| "summing_up ((k, elem) # m) deletions =
     (if 0 < length k \<and> length k < 100 \<and> length elem \<ge> 3
      then summing_up m (deletions @ elem)
      else summing_up m deletions)"

text \<open>
  Modelled from the spec: \<^verbatim>\<open>utils.uniquify_list\<close> is not part of the sources at hand.
  The specification says that the deletions are de-duplicated before application; the
  list keeps the first occurrence of each element, in order.
\<close>

definition uniquify_list :: "'a list \<Rightarrow> 'a list" where
  "uniquify_list xs = rev (remdups (rev xs))"

text \<open>The deletions that the last loop of \<^verbatim>\<open>delete_by_link_density\<close> runs over.\<close>

definition deletions_of ::
  "(path \<times> element \<Rightarrow> bool \<times> string list) \<Rightarrow> (string \<Rightarrow> string) \<Rightarrow> element \<Rightarrow> string
     \<Rightarrow> bool \<Rightarrow> path list" where
  "deletions_of link_density_test trim subtree tagname backtracking =
     (case collect link_density_test trim backtracking
             (filter (\<lambda>x. tag (snd x) = tagname) (iter_paths [] subtree)) ([], []) of
        (myelems, deletions) \<Rightarrow>
          uniquify_list (if backtracking then summing_up myelems deletions else deletions))"

text \<open>
  \<^verbatim>\<open>elem.getparent().remove(elem)\<close> for every element of a list: the children on one of
  the paths are taken out of the tree, with their tails. \<open>below i ds\<close> are the paths that
  lead through child \<open>i\<close>, seen from that child.
\<close>

definition below :: "nat \<Rightarrow> path list \<Rightarrow> path list" where
  "below i ds = map tl (filter (\<lambda>p. p \<noteq> [] \<and> hd p = i \<and> tl p \<noteq> []) ds)"

fun remove_paths :: "path list \<Rightarrow> element \<Rightarrow> element"
  and remove_paths_list :: "path list \<Rightarrow> nat \<Rightarrow> element list \<Rightarrow> element list" where
  "remove_paths ds (Element t tx ta a cs) = Element t tx ta a (remove_paths_list ds 0 cs)"
| "remove_paths_list ds i [] = []"
| "remove_paths_list ds i (c # cs) =
     (if [i] \<in> set ds then remove_paths_list ds (Suc i) cs
      else remove_paths (below i ds) c # remove_paths_list ds (Suc i) cs)"

text \<open>
  \<^verbatim>\<open>delete_by_link_density(subtree, tagname, backtracking)\<close>. The root of the subtree is
  among the elements that \<^verbatim>\<open>iter\<close> yields. When it is to be deleted, it is taken out
  of its parent, which lies outside the subtree, and the subtree itself stays as it is; a
  subtree without a parent raises \<^verbatim>\<open>AttributeError\<close> there.
\<close>

datatype py_error = ValueError | AttributeError | TypeError | KeyError | UnboundLocalError

definition delete_by_link_density ::
  "(path \<times> element \<Rightarrow> bool \<times> string list) \<Rightarrow> (string \<Rightarrow> string) \<Rightarrow> bool \<Rightarrow> element
     \<Rightarrow> string \<Rightarrow> bool \<Rightarrow> py_error + element" where
  "delete_by_link_density link_density_test trim has_parent subtree tagname backtracking =
     (let ds = deletions_of link_density_test trim subtree tagname backtracking
      in if [] \<in> set ds \<and> \<not> has_parent then Inl AttributeError
         else Inr (remove_paths ds subtree))"

text \<open>
  A navigation block for concrete runs: a \<^verbatim>\<open>div\<close> with three \<^verbatim>\<open>div\<close> children that
  each hold the link text \<^verbatim>\<open>Home\<close>, a fourth with another text, and a paragraph. The
  stand-in for the link-density test flags no element and returns a non-empty list of
  short strings for the \<^verbatim>\<open>div\<close> elements without children.
\<close>

definition nav_block :: element where
  "nav_block =
     Element ''div'' None None []
       [Element ''div'' (Some ''Home'') None [] [],
        Element ''div'' (Some ''Home'') None [] [],
        Element ''p'' (Some ''Some text.'') None [] [],
        Element ''div'' (Some '' Home '') None [] [],
        Element ''div'' (Some ''About'') None [] []]"

definition short_links_test :: "path \<times> element \<Rightarrow> bool \<times> string list" where
  "short_links_test x =
     (False, if children (snd x) = [] then [text_content (snd x)] else [])"

section \<open>The end of the content extraction\<close>

text \<open>
  \<^verbatim>\<open>etree.strip_elements(tree, tag)\<close>: every element with the tag below the root is
  deleted with its subtree and its tail; the root itself is never deleted.
\<close>

fun strip_elements :: "string \<Rightarrow> element \<Rightarrow> element"
  and strip_elements_list :: "string \<Rightarrow> element list \<Rightarrow> element list" where
  "strip_elements t (Element tg tx ta a cs) = Element tg tx ta a (strip_elements_list t cs)"
| "strip_elements_list t [] = []"
| "strip_elements_list t (c # cs) =
     (if tag c = t then strip_elements_list t cs
      else strip_elements t c # strip_elements_list t cs)"

text \<open>Concatenation of optional texts: adjacent text nodes read as one text.\<close>

definition join_text :: "string option \<Rightarrow> string option \<Rightarrow> string option" where
  "join_text x y =
     (case x of None \<Rightarrow> y | Some u \<Rightarrow> (case y of None \<Rightarrow> Some u | Some v \<Rightarrow> Some (u @ v)))"

text \<open>
  A text that lands after the children built so far: it extends the tail of the last of
  them, or the text of the parent when there is none.
\<close>

definition add_text :: "string option \<Rightarrow> string option \<times> element list \<Rightarrow> string option \<times> element list" where
  "add_text s st =
     (case st of (ptext, out) \<Rightarrow>
        if out = [] then (join_text ptext s, [])
        else (ptext, butlast out
                       @ [Element (tag (last out)) (text' (last out)) (join_text (tail (last out)) s)
                            (attrib (last out)) (children (last out))]))"

text \<open>
  \<^verbatim>\<open>etree.strip_tags(tree, tag)\<close>: every element with the tag below the root is replaced
  by its content: its text, its children (treated in the same way) and its tail take its
  place among the children of its parent. \<open>strip_tags_list\<close> runs over the children of one
  parent; its state is the text of the parent and the children built so far.
\<close>

fun strip_tags :: "string \<Rightarrow> element \<Rightarrow> element"
  and strip_tags_list ::
    "string \<Rightarrow> element list \<Rightarrow> string option \<times> element list \<Rightarrow> string option \<times> element list" where
  "strip_tags t (Element tg tx ta a cs) =
     (case strip_tags_list t cs (tx, []) of (tx', cs') \<Rightarrow> Element tg tx' ta a cs')"
| "strip_tags_list t [] st = st"
| "strip_tags_list t (Element tg tx ta a ccs # cs) st =
     (if tg = t
      then strip_tags_list t cs (add_text ta (strip_tags_list t ccs (add_text tx st)))
      else strip_tags_list t cs
             (fst st, snd st @ [strip_tags t (Element tg tx ta a ccs)]))"

text \<open>The tags of the elements of a list of trees.\<close>

definition tags_below :: "element list \<Rightarrow> string set" where
  "tags_below cs = tag ` set (concat (map iter_all cs))"

text \<open>The two lines ``filter output'' of \<^verbatim>\<open>extract_content\<close>.\<close>

definition filter_output :: "element \<Rightarrow> element" where
  "filter_output result_body = strip_tags ''div'' (strip_elements ''done'' result_body)"

text \<open>
  The end of \<^verbatim>\<open>extract_content\<close> (lines 642 to 656), on the body that the loop over
  the body expressions has built. \<^verbatim>\<open>recover_wild_text\<close> on the raw tree is the parameter
  \<open>recover\<close>; it is given the potential tags and the body and returns the extended body.
  The result is the body, the text, its length and \<^verbatim>\<open>sure_thing\<close>.
\<close>

definition extract_content_end ::
  "(string \<Rightarrow> string) \<Rightarrow> config \<Rightarrow> (string set \<Rightarrow> element \<Rightarrow> element) \<Rightarrow> bool \<Rightarrow> string set
     \<Rightarrow> element \<Rightarrow> element \<times> string \<times> int \<times> bool" where
  "extract_content_end trim cfg recover favor_recall potential_tags result_body =
     (let temp_text = trim (join '' '' (itertext result_body))
      in if length (children result_body) = 0
            \<or> int (length temp_text) < MIN_EXTRACTED_SIZE cfg
         then
           (let potential_tags = (if favor_recall then insert ''div'' potential_tags
                                  else potential_tags);
                result_body = recover potential_tags result_body;
                temp_text = trim (join '' '' (itertext result_body))
            in (filter_output result_body, temp_text, int (length temp_text), False))
         else (filter_output result_body, temp_text, int (length temp_text), True))"

text \<open>The internal vocabulary of the specification, without the root \<^verbatim>\<open>body\<close>.\<close>

definition vocabulary :: "string list" where
  "vocabulary = [''p'', ''head'', ''hi'', ''ref'', ''list'', ''item'', ''table'', ''row'',
                 ''cell'', ''quote'', ''code'', ''graphic'', ''lb'', ''del'', ''fw'']"

text \<open>
  A body as the rewriting loop builds it from the candidate
  \<^verbatim>\<open><article><section><p>...</p></section><p>...</p></article>\<close>, and a body with
  consumed elements and \<^verbatim>\<open>div\<close> wrappers.
\<close>

definition section_body :: element where
  "section_body =
     Element ''body'' None None []
       [Element ''section'' None (Some []) []
          [Element ''p'' (Some (replicate 300 CHR ''a'')) None [] []],
        Element ''p'' (Some (replicate 300 CHR ''b'')) None [] []]"

definition marked_body :: element where
  "marked_body =
     Element ''body'' None None []
       [Element ''div'' (Some ''b'') (Some ''c'') []
          [Element ''p'' (Some (replicate 300 CHR ''a'')) (Some ''e'') [] [],
           Element ''div'' (Some ''f'') (Some ''g'') [] []],
        Element ''done'' (Some ''h'') (Some ''i'') [] [Element ''p'' None None [] []],
        Element ''quote'' None (Some ''k'') []
          [Element ''div'' (Some ''l'') (Some ''m'') [] [Element ''done'' None (Some ''z'') [] []]]]"

section \<open>The extraction pipeline\<close>

text \<open>
  Exceptions are values: a computation that may raise returns \<open>py_error + 'a\<close>, and
  \<open>bind_py\<close> runs the next statement when the previous one returned.
\<close>

definition bind_py :: "py_error + 'a \<Rightarrow> ('a \<Rightarrow> py_error + 'b) \<Rightarrow> py_error + 'b" where
  "bind_py m f = (case m of Inl e \<Rightarrow> Inl e | Inr v \<Rightarrow> f v)"

text \<open>
  The metadata dictionary \<^verbatim>\<open>docmeta\<close>; \<^verbatim>\<open>docmeta[key]\<close> raises \<^verbatim>\<open>KeyError\<close> for a
  missing key, and \<^verbatim>\<open>dict.fromkeys(keys)\<close> maps every key to \<^verbatim>\<open>None\<close>.
\<close>

type_synonym docmeta = "string \<rightharpoonup> pyval"

definition getitem :: "docmeta \<Rightarrow> string \<Rightarrow> py_error + pyval" where
  "getitem d k = (case d k of None \<Rightarrow> Inl KeyError | Some v \<Rightarrow> Inr v)"

definition fromkeys :: "string list \<Rightarrow> docmeta" where
  "fromkeys ks = map_of (map (\<lambda>k. (k, PyNone)) ks)"

definition opt_elem :: "element option \<Rightarrow> pyval" where
  "opt_elem x = (case x of None \<Rightarrow> PyNone | Some e \<Rightarrow> PyElem e)"

definition opt_str :: "string option \<Rightarrow> pyval" where
  "opt_str x = (case x of None \<Rightarrow> PyNone | Some s \<Rightarrow> PyStr s)"

text \<open>\<^verbatim>\<open>value < n\<close> for an integer \<open>n\<close>: a string on the left raises \<^verbatim>\<open>TypeError\<close>.\<close>

definition py_less :: "pyval \<Rightarrow> int \<Rightarrow> py_error + bool" where
  "py_less v n = (case v of PyInt m \<Rightarrow> Inr (m < n) | _ \<Rightarrow> Inl TypeError)"

text \<open>\<^verbatim>\<open>s.strip()\<close>, on the ASCII whitespace.\<close>

definition py_space :: "char \<Rightarrow> bool" where
  "py_space c = (c \<in> {CHR '' '', CHR 0x09, CHR 0x0A, CHR 0x0B, CHR 0x0C, CHR 0x0D,
                        CHR 0x1C, CHR 0x1D, CHR 0x1E, CHR 0x1F})"

definition strip :: "string \<Rightarrow> string" where
  "strip s = rev (dropWhile py_space (rev (dropWhile py_space s)))"

text \<open>
  The options of \<^verbatim>\<open>extract\<close> and \<^verbatim>\<open>bare_extraction\<close> that \<^verbatim>\<open>core.py\<close> reads. The
  date parameters, the author blacklist and the settings file are only handed on to
  collaborators. A missing \<^verbatim>\<open>url_blacklist\<close> is the empty set.
\<close>

record options =
  opt_url :: "string option"
  opt_record_id :: "string option"
  opt_no_fallback :: bool
  opt_favor_precision :: bool
  opt_favor_recall :: bool
  opt_include_comments :: bool
  opt_output_format :: string
  opt_tei_validation :: bool
  opt_target_language :: "string option"
  opt_include_tables :: bool
  opt_include_images :: bool
  opt_include_formatting :: bool
  opt_include_links :: bool
  opt_deduplicate :: bool
  opt_only_with_metadata :: bool
  opt_with_metadata :: bool
  opt_max_tree_size :: "int option"
  opt_url_blacklist :: "string set"

text \<open>
  The collaborators of the pipeline that are not part of the sources at hand are
  parameters, each a function of its arguments: the loader, the language check of the HTML
  attributes, the metadata extractor (on the tree, the URL and \<open>no_fallback\<close>),
  \<^verbatim>\<open>METADATA_LIST\<close>, the cleaner, the tag converter, the pruning with
  \<^verbatim>\<open>REMOVE_COMMENTS_XPATH\<close>, the duplicate test, the language filter, the serializers
  and \<^verbatim>\<open>use_config\<close>. The cleaner, the converter and the pruning work on the tree
  itself and return it. \<^verbatim>\<open>extract_comments\<close> and \<^verbatim>\<open>extract_content\<close>, which rewrite
  the tree with the path expressions and the text-node cleaners of the package, are taken
  by their outcome: the exception they raise, or the values they return, for
  \<^verbatim>\<open>extract_content\<close> together with the tree as it leaves it (\<^verbatim>\<open>extract_comments\<close>
  returns the tree itself). The end of \<^verbatim>\<open>extract_content\<close> is \<open>extract_content_end\<close>
  above.
\<close>

record collaborators =
  c_use_config :: "string option \<Rightarrow> config \<Rightarrow> config"
  c_load_html :: "string \<Rightarrow> element option"
  c_check_html_lang :: "element \<Rightarrow> string \<Rightarrow> bool"
  c_extract_metadata :: "element \<Rightarrow> string option \<Rightarrow> bool \<Rightarrow> docmeta"
  c_METADATA_LIST :: "string list"
  c_tree_cleaning :: "element \<Rightarrow> bool \<Rightarrow> bool \<Rightarrow> element"
  c_convert_tags :: "element \<Rightarrow> bool \<Rightarrow> bool \<Rightarrow> bool \<Rightarrow> bool \<Rightarrow> element"
  c_extract_comments ::
    "element \<Rightarrow> bool \<Rightarrow> config \<Rightarrow> py_error + (element \<times> string \<times> int \<times> element)"
  c_prune_comments :: "element \<Rightarrow> element"
  c_extract_content ::
    "element \<Rightarrow> bool \<Rightarrow> bool \<Rightarrow> bool \<Rightarrow> bool \<Rightarrow> bool \<Rightarrow> bool \<Rightarrow> config \<Rightarrow> element option
       \<Rightarrow> py_error + ((element \<times> string \<times> int \<times> bool) \<times> element)"
  c_duplicate_test :: "element \<Rightarrow> config \<Rightarrow> bool"
  c_language_filter :: "pyval \<Rightarrow> string \<Rightarrow> string \<Rightarrow> docmeta \<Rightarrow> bool"
  c_xmltotxt :: "pyval \<Rightarrow> bool \<Rightarrow> bool \<Rightarrow> string"
  c_content_fingerprint :: "pyval \<Rightarrow> string"
  c_build_xml_output :: "docmeta \<Rightarrow> element"
  c_build_tei_output :: "docmeta \<Rightarrow> element"
  c_control_xml_output :: "element \<Rightarrow> string \<Rightarrow> bool \<Rightarrow> docmeta \<Rightarrow> string"
  c_txttocsv :: "string \<Rightarrow> string \<Rightarrow> docmeta \<Rightarrow> string"
  c_build_json_output :: "docmeta \<Rightarrow> string"

text \<open>
  \<^verbatim>\<open>remove_lone_figures(body)\<close>: the elements tagged \<^verbatim>\<open>figure\<close>, \<^verbatim>\<open>source\<close> or
  \<^verbatim>\<open>picture\<close> without children are taken out of their parents; the root has none.
\<close>

definition remove_lone_figures :: "element \<Rightarrow> py_error + element" where
  "remove_lone_figures body =
     (let figs = filter (\<lambda>x. tag (snd x) \<in> {''figure'', ''source'', ''picture''}
                              \<and> length (children (snd x)) = 0) (iter_paths [] body)
      in if [] \<in> set (map fst figs) then Inl AttributeError
         else Inr (remove_paths (map fst figs) body))"

text \<open>
  The metadata step of \<^verbatim>\<open>bare_extraction\<close> (lines 929 to 943), with the two
  \<^verbatim>\<open>raise ValueError\<close> for a blacklisted URL and for missing core metadata.
\<close>

definition metadata_step :: "collaborators \<Rightarrow> options \<Rightarrow> bool \<Rightarrow> element \<Rightarrow> py_error + docmeta" where
  "metadata_step col opts only_with_metadata tree =
     (if opt_output_format opts \<noteq> ''txt''
      then
        (let docmeta = c_extract_metadata col tree (opt_url opts) (opt_no_fallback opts)
         in bind_py (getitem docmeta ''url'') (\<lambda>u.
              if (case u of PyStr s \<Rightarrow> s \<in> opt_url_blacklist opts | _ \<Rightarrow> False)
              then Inl ValueError
              else if only_with_metadata
              then bind_py (getitem docmeta ''date'') (\<lambda>d.
                   bind_py (getitem docmeta ''title'') (\<lambda>t.
                   bind_py (getitem docmeta ''url'') (\<lambda>u'.
                     if d = PyNone \<or> t = PyNone \<or> u' = PyNone then Inl ValueError
                     else Inr docmeta)))
              else Inr docmeta))
      else Inr (fromkeys (c_METADATA_LIST col)))"

text \<open>
  The checks at the end of the \<^verbatim>\<open>try\<close> block (lines 977 to 1002): the tree size, the
  minimal sizes, the duplicate test and the language filter.
\<close>

definition final_checks ::
  "collaborators \<Rightarrow> config \<Rightarrow> options \<Rightarrow> docmeta \<Rightarrow> element \<Rightarrow> pyval \<Rightarrow> pyval \<Rightarrow> string \<Rightarrow> int
     \<Rightarrow> py_error + element" where
  "final_checks col cfg opts docmeta postbody temp_text len_text temp_comments len_comments =
     bind_py
       (case opt_max_tree_size opts of
          None \<Rightarrow> Inr postbody
        | Some max_tree_size \<Rightarrow>
            (let postbody = (if int (length (children postbody)) > max_tree_size
                             then strip_tags ''hi'' postbody else postbody)
             in if int (length (children postbody)) > max_tree_size then Inl ValueError
                else Inr postbody))
       (\<lambda>postbody.
          bind_py (py_less len_text (MIN_OUTPUT_SIZE cfg)) (\<lambda>small.
            if small \<and> len_comments < MIN_OUTPUT_COMM_SIZE cfg then Inl ValueError
            else if opt_deduplicate opts \<and> c_duplicate_test col postbody cfg then Inl ValueError
            else if opt_target_language opts \<noteq> None
                    \<and> c_language_filter col temp_text temp_comments
                         (the (opt_target_language opts)) docmeta
            then Inl ValueError
            else Inr postbody))"

text \<open>
  The \<^verbatim>\<open>try\<close> block of \<^verbatim>\<open>bare_extraction\<close> (lines 911 to 1002). The backup is a copy
  of the tree as it was loaded. The cleaner and the converter work on the tree itself, so
  \<^verbatim>\<open>tree\<close> and \<^verbatim>\<open>cleaned_tree\<close> are one object, and the tree that
  \<^verbatim>\<open>compare_extraction\<close> receives is the tree as the cleaning, the conversion, the
  comment extraction and the content extraction have left it. An exception of
  \<^verbatim>\<open>extract_comments\<close>, of \<^verbatim>\<open>extract_content\<close> or of \<^verbatim>\<open>remove_lone_figures\<close> ends the
  block.
\<close>

definition try_block ::
  "collaborators \<Rightarrow> external \<Rightarrow> config \<Rightarrow> string \<Rightarrow> options \<Rightarrow> string option
     \<Rightarrow> py_error + (docmeta \<times> element \<times> pyval \<times> element option)" where
  "try_block col ext cfg filecontent opts raw_tree =
     (let only_with_metadata =
            (if opt_with_metadata opts then opt_with_metadata opts
             else opt_only_with_metadata opts)
      in case c_load_html col filecontent of
           None \<Rightarrow> Inl ValueError
         | Some tree \<Rightarrow>
             (let raw_tree = (case raw_tree of None \<Rightarrow> None | Some r \<Rightarrow> c_load_html col r);
                  raw_tree = (case raw_tree of
                                None \<Rightarrow> None
                              | Some r \<Rightarrow>
                                  Some (c_convert_tags col r (opt_include_formatting opts)
                                          (opt_include_tables opts) (opt_include_images opts)
                                          (opt_include_links opts)))
              in if opt_target_language opts \<noteq> None
                    \<and> \<not> c_check_html_lang col tree (the (opt_target_language opts))
                 then Inl ValueError
                 else
                   (let backup_tree = tree
                    in bind_py (metadata_step col opts only_with_metadata tree) (\<lambda>docmeta.
                     (let tree = c_tree_cleaning col tree (opt_include_tables opts)
                                   (opt_include_images opts);
                          tree = c_convert_tags col tree
                                   (opt_include_formatting opts) (opt_include_tables opts)
                                   (opt_include_images opts) (opt_include_links opts)
                      in bind_py
                           (if opt_include_comments opts
                            then bind_py (c_extract_comments col tree (opt_deduplicate opts) cfg)
                                   (\<lambda>(cb, tc, lc, ct). Inr (Some cb, tc, lc, ct))
                            else Inr (None, [], 0,
                                      if opt_favor_precision opts
                                      then c_prune_comments col tree else tree))
                           (\<lambda>(commentsbody, temp_comments, len_comments, tree).
                              bind_py
                                (c_extract_content col tree (opt_favor_precision opts)
                                   (opt_favor_recall opts) (opt_include_tables opts)
                                   (opt_include_images opts) (opt_include_links opts)
                                   (opt_deduplicate opts) cfg raw_tree)
                                (\<lambda>((postbody, temp_text, len_text, sure_thing), tree).
                                   bind_py
                                     (if opt_include_images opts
                                      then bind_py (remove_lone_figures postbody)
                                             (\<lambda>b. Inr (b, temp_text, len_text, sure_thing))
                                      else Inr (postbody, temp_text, len_text, sure_thing))
                                     (\<lambda>extracted.
                                        case fst (compare_if_necessary ext cfg (c_load_html col)
                                                    filecontent tree backup_tree (opt_url opts)
                                                    (opt_no_fallback opts)
                                                    (opt_target_language opts)
                                                    (opt_favor_precision opts)
                                                    (opt_favor_recall opts)
                                                    (opt_include_formatting opts)
                                                    (opt_include_links opts)
                                                    (opt_include_images opts)
                                                    (opt_include_tables opts) extracted) of
                                          (postbody, temp_text, len_text) \<Rightarrow>
                                            bind_py (final_checks col cfg opts docmeta postbody
                                                       temp_text len_text temp_comments
                                                       len_comments)
                                              (\<lambda>postbody.
                                                 Inr (docmeta, postbody, temp_text,
                                                      commentsbody))))))))))"

text \<open>
  \<^verbatim>\<open>bare_extraction\<close>: the \<^verbatim>\<open>except ValueError\<close> clause returns \<^verbatim>\<open>None\<close>; any other
  exception leaves the function.
\<close>

definition bare_extraction ::
  "collaborators \<Rightarrow> external \<Rightarrow> config \<Rightarrow> string \<Rightarrow> options \<Rightarrow> string option
     \<Rightarrow> py_error + docmeta option" where
  "bare_extraction col ext cfg filecontent opts raw_tree =
     (case try_block col ext cfg filecontent opts raw_tree of
        Inl e \<Rightarrow> if e = ValueError then Inr None else Inl e
      | Inr (docmeta, postbody, temp_text, commentsbody) \<Rightarrow>
          if opt_output_format opts = ''python''
          then
            (let docmeta = docmeta(''text'' \<mapsto>
                     PyStr (c_xmltotxt col (PyElem postbody) (opt_include_formatting opts)
                              (opt_include_links opts)));
                 docmeta = (if opt_include_comments opts
                            then docmeta(''comments'' \<mapsto>
                                   PyStr (c_xmltotxt col (opt_elem commentsbody)
                                            (opt_include_formatting opts)
                                            (opt_include_links opts)))
                            else docmeta)
             in Inr (Some docmeta))
          else Inr (Some (docmeta(''raw-text'' \<mapsto> temp_text, ''body'' \<mapsto> PyElem postbody,
                                  ''commentsbody'' \<mapsto> opt_elem commentsbody))))"

text \<open>
  The last cleaning of \<^verbatim>\<open>determine_returnstring\<close>: the elements without children, text
  and tail, other than \<^verbatim>\<open>graphic\<close>, are taken out of their parents; the iteration has
  the next element at hand before the current one is removed.
\<close>

definition last_cleaning :: "element \<Rightarrow> element" where
  "last_cleaning body =
     remove_paths
       (map fst (filter (\<lambda>x. fst x \<noteq> [] \<and> tag (snd x) \<noteq> ''graphic''
                              \<and> length (children (snd x)) = 0
                              \<and> str_of (text' (snd x)) = [] \<and> str_of (tail (snd x)) = [])
                   (iter_paths [] body)))
       body"

text \<open>
  \<^verbatim>\<open>determine_returnstring\<close>. In the XML branch the variable \<^verbatim>\<open>output\<close> is bound for
  the formats \<^verbatim>\<open>xml\<close> and \<^verbatim>\<open>xmltei\<close> only.
\<close>

definition determine_returnstring ::
  "collaborators \<Rightarrow> docmeta \<Rightarrow> string \<Rightarrow> bool \<Rightarrow> bool \<Rightarrow> bool \<Rightarrow> py_error + string" where
  "determine_returnstring col docmeta output_format include_formatting include_links
       tei_validation =
     (if contains output_format ''xml''
      then bind_py (getitem docmeta ''body'') (\<lambda>b.
             case b of
               PyElem body \<Rightarrow>
                 (let docmeta = docmeta(''body'' \<mapsto> PyElem (last_cleaning body))
                  in if output_format = ''xml''
                     then Inr (c_control_xml_output col (c_build_xml_output col docmeta)
                                 output_format tei_validation docmeta)
                     else if output_format = ''xmltei''
                     then Inr (c_control_xml_output col (c_build_tei_output col docmeta)
                                 output_format tei_validation docmeta)
                     else Inl UnboundLocalError)
             | _ \<Rightarrow> Inl AttributeError)
      else if output_format = ''csv''
      then bind_py (getitem docmeta ''body'') (\<lambda>b.
           bind_py (getitem docmeta ''commentsbody'') (\<lambda>cb.
             Inr (c_txttocsv col (c_xmltotxt col b include_formatting include_links)
                    (if cb \<noteq> PyNone then c_xmltotxt col cb include_formatting include_links
                     else [])
                    docmeta)))
      else if output_format = ''json'' then Inr (c_build_json_output col docmeta)
      else bind_py (getitem docmeta ''body'') (\<lambda>b.
           bind_py (getitem docmeta ''commentsbody'') (\<lambda>cb.
             if cb \<noteq> PyNone
             then Inr (strip (c_xmltotxt col b include_formatting include_links @ [CHR 0x0A]
                              @ c_xmltotxt col cb include_formatting include_links))
             else Inr (c_xmltotxt col b include_formatting include_links))))"

text \<open>
  \<^verbatim>\<open>extract\<close> (the name alone is a command of Isabelle): the result is a string,
  \<^verbatim>\<open>None\<close>, or an exception.
\<close>

definition extract_py ::
  "collaborators \<Rightarrow> external \<Rightarrow> config \<Rightarrow> string option \<Rightarrow> string \<Rightarrow> options
     \<Rightarrow> py_error + string option" where
  "extract_py col ext cfg settingsfile filecontent opts =
     (let cfg = c_use_config col settingsfile cfg
      in bind_py (bare_extraction col ext cfg filecontent opts None) (\<lambda>result.
           case result of
             None \<Rightarrow> Inr None
           | Some docmeta \<Rightarrow>
               bind_py
                 (if opt_output_format opts \<noteq> ''txt''
                  then bind_py (getitem (docmeta(''id'' \<mapsto> opt_str (opt_record_id opts)))
                                  ''raw-text'')
                         (\<lambda>raw. Inr (docmeta(''id'' \<mapsto> opt_str (opt_record_id opts),
                                            ''fingerprint'' \<mapsto>
                                              PyStr (c_content_fingerprint col raw))))
                  else Inr docmeta)
                 (\<lambda>docmeta.
                    bind_py (determine_returnstring col docmeta (opt_output_format opts)
                               (opt_include_formatting opts) (opt_include_links opts)
                               (opt_tei_validation opts))
                      (\<lambda>s. Inr (Some s)))))"

text \<open>
  The defaults of \<^verbatim>\<open>extract\<close>, and collaborators for concrete runs on the document
  \<^verbatim>\<open><html><body><p>Hi</p></body></html>\<close>: the metadata extractor finds nothing and
  returns the keys of \<^verbatim>\<open>METADATA_LIST\<close>, the cleaner and the converter leave the tree as
  it is, there are no comments, the content extractor returns the paragraph, and the
  serializers write the text of the body.
\<close>

definition default_options :: options where
  "default_options =
     \<lparr>opt_url = None, opt_record_id = None, opt_no_fallback = False,
      opt_favor_precision = False, opt_favor_recall = False, opt_include_comments = True,
      opt_output_format = ''txt'', opt_tei_validation = False, opt_target_language = None,
      opt_include_tables = True, opt_include_images = False, opt_include_formatting = False,
      opt_include_links = False, opt_deduplicate = False, opt_only_with_metadata = False,
      opt_with_metadata = False, opt_max_tree_size = None, opt_url_blacklist = {}\<rparr>"

definition short_html :: string where
  "short_html = ''<html><body><p>Hi</p></body></html>''"

definition metadata_keys :: "string list" where
  "metadata_keys = [''title'', ''author'', ''url'', ''hostname'', ''description'', ''sitename'',
                    ''date'', ''categories'', ''tags'', ''fingerprint'', ''id'', ''license'']"

definition body_text :: "pyval \<Rightarrow> string" where
  "body_text v = (case v of PyElem e \<Rightarrow> trim_words (join '' '' (itertext e)) | _ \<Rightarrow> [])"

definition plain_collaborators :: collaborators where
  "plain_collaborators =
     \<lparr>c_use_config = (\<lambda>settingsfile cfg. cfg),
      c_load_html = (\<lambda>s. if s = short_html then Some short_doc else None),
      c_check_html_lang = (\<lambda>tree lang. True),
      c_extract_metadata = (\<lambda>tree url no_fallback. fromkeys metadata_keys),
      c_METADATA_LIST = metadata_keys,
      c_tree_cleaning = (\<lambda>tree tables images. tree),
      c_convert_tags = (\<lambda>tree formatting tables images links. tree),
      c_extract_comments = (\<lambda>tree dedup cfg. Inr (new_element ''body'', [], 0, tree)),
      c_prune_comments = (\<lambda>tree. tree),
      c_extract_content = (\<lambda>tree fp fr tables images links dedup cfg raw.
                             Inr ((short_body, ''Hi'', 2, False), tree)),
      c_duplicate_test = (\<lambda>body cfg. False),
      c_language_filter = (\<lambda>temp_text temp_comments lang docmeta. False),
      c_xmltotxt = (\<lambda>v formatting links. body_text v),
      c_content_fingerprint = (\<lambda>v. ''0''),
      c_build_xml_output = (\<lambda>docmeta. case docmeta ''body'' of
                                          Some (PyElem b) \<Rightarrow> b | _ \<Rightarrow> new_element ''doc''),
      c_build_tei_output = (\<lambda>docmeta. case docmeta ''body'' of
                                          Some (PyElem b) \<Rightarrow> b | _ \<Rightarrow> new_element ''TEI''),
      c_control_xml_output = (\<lambda>output fmt validation docmeta. text_content output),
      c_txttocsv = (\<lambda>posttext commentstext docmeta. posttext @ [CHR 0x09] @ commentstext),
      c_build_json_output = (\<lambda>docmeta. body_text (case docmeta ''body'' of
                                                       Some v \<Rightarrow> v | None \<Rightarrow> PyNone))\<rparr>"

section \<open>The paragraph rewriter\<close>

text \<open>
  Python's truth value of an optional string, and \<^verbatim>\<open>x or y\<close> on optional strings.
\<close>

definition truthy :: "string option \<Rightarrow> bool" where
  "truthy x = (x \<noteq> None \<and> x \<noteq> Some [])"

definition py_or :: "string option \<Rightarrow> string option \<Rightarrow> string option" where
  "py_or x y = (if truthy x then x else y)"

definition set_tail :: "element \<Rightarrow> string option \<Rightarrow> element" where
  "set_tail e v = Element (tag e) (text' e) v (attrib e) (children e)"

definition set_tag :: "element \<Rightarrow> string \<Rightarrow> element" where
  "set_tag e t = Element t (text' e) (tail e) (attrib e) (children e)"

text \<open>\<^verbatim>\<open>element_is_empty(res)\<close>; \<^verbatim>\<open>None\<close> is empty.\<close>

definition element_is_empty :: "element option \<Rightarrow> bool" where
  "element_is_empty res =
     (case res of
        None \<Rightarrow> True
      | Some r \<Rightarrow> length (children r) = 0 \<and> \<not> truthy (text' r) \<and> \<not> truthy (tail r)
                  \<and> tag r \<in> {''p'', ''span'', ''div'', ''hi'', ''head''})"

text \<open>\<^verbatim>\<open>get_last_text(e)\<close> for an element.\<close>

function get_last_text :: "element \<Rightarrow> string option" where
  "get_last_text (Element t tx ta a cs) =
     (if truthy ta then ta
      else if cs \<noteq> []
      then (let r = get_last_text (last cs) in if truthy r then r else tx)
      else tx)"
  by pat_completeness auto
termination
proof (relation "measure size")
  show "wf (measure size)" by simp
next
  fix t :: string and tx ta :: "string option" and a :: "(string \<times> string) list"
    and cs :: "element list"
  assume "cs \<noteq> []"
  then have "last cs \<in> set cs" by simp
  then have "size (last cs) \<le> size_list size cs" by (rule size_list_estimation') simp
  then show "(last cs, Element t tx ta a cs) \<in> measure size" by simp
qed

text \<open>
  \<^verbatim>\<open>_get_first_inline_text(e, is_root)\<close>. \<^verbatim>\<open>NoText = type('NoText')\<close> is the class
  \<^verbatim>\<open>str\<close>, a true value that no text equals; \<^verbatim>\<open>get_first_inline_text\<close> turns it
  into \<^verbatim>\<open>None\<close>.
\<close>

datatype first_text = NoText | Txt "string option"

function get_first_inline_text_rec :: "element \<Rightarrow> bool \<Rightarrow> first_text" where
  "get_first_inline_text_rec (Element t tx ta a cs) is_root =
     (if \<not> is_root \<and> t \<in> {''graphic'', ''div'', ''p''} then NoText
      else if truthy tx then Txt tx
      else if cs \<noteq> []
      then (case get_first_inline_text_rec (hd cs) False of
              NoText \<Rightarrow> NoText
            | Txt r \<Rightarrow> if truthy r then Txt r else Txt (py_or tx ta))
      else Txt (py_or tx ta))"
  by pat_completeness auto
termination
proof (relation "measure (\<lambda>(e, r). size e)")
  show "wf (measure (\<lambda>(e, r). size e))" by simp
next
  fix t :: string and tx ta :: "string option" and a :: "(string \<times> string) list"
    and cs :: "element list" and is_root :: bool
  assume "cs \<noteq> []"
  then have "hd cs \<in> set cs" by simp
  then have "size (hd cs) \<le> size_list size cs" by (rule size_list_estimation') simp
  then show "((hd cs, False), (Element t tx ta a cs, is_root)) \<in> measure (\<lambda>(e, r). size e)"
    by simp
qed

definition get_first_inline_text :: "element \<Rightarrow> string option" where
  "get_first_inline_text e =
     (case get_first_inline_text_rec e True of NoText \<Rightarrow> None | Txt r \<Rightarrow> r)"

text \<open>
  \<^verbatim>\<open>append_child(processed_element, res, last_element, tags_to_enumerate)\<close>. In the
  paragraph rewriter \<^verbatim>\<open>last_element\<close> is the processed element itself as long as it
  has no child, and its last child afterwards; \<^verbatim>\<open>handle_lists\<close> passes \<^verbatim>\<open>None\<close>. The
  model returns the processed element with the new pointer.
\<close>

datatype last_pointer = LastNone | LastSelf | LastChild

definition pointed :: "element \<Rightarrow> last_pointer \<Rightarrow> element" where
  "pointed processed_element lp =
     (if lp = LastChild \<and> children processed_element \<noteq> [] then last (children processed_element)
      else processed_element)"

definition space_after :: "element \<Rightarrow> last_pointer \<Rightarrow> element" where
  "space_after processed_element lp =
     (if lp = LastChild \<and> children processed_element \<noteq> []
      then Element (tag processed_element) (text' processed_element) (tail processed_element)
             (attrib processed_element)
             (butlast (children processed_element)
              @ [set_tail (last (children processed_element))
                   (Some (str_of (tail (last (children processed_element))) @ '' ''))])
      else set_tail processed_element (Some (str_of (tail processed_element) @ '' '')))"

definition append_child ::
  "element \<Rightarrow> element option \<Rightarrow> last_pointer \<Rightarrow> string set \<Rightarrow> element \<times> last_pointer" where
  "append_child processed_element res last_element tags_to_enumerate =
     (case res of
        None \<Rightarrow> (processed_element, last_element)
      | Some r \<Rightarrow>
          if element_is_empty (Some r) then (processed_element, last_element)
          else if tag r \<in> tags_to_enumerate
          then (if children r = [] then (processed_element, last_element)
                else (Element (tag processed_element) (text' processed_element)
                        (tail processed_element) (attrib processed_element)
                        (children processed_element @ children r), LastChild))
          else
            (let processed_element =
                   (if last_element \<noteq> LastNone
                       \<and> should_have_space_prior (get_first_inline_text r)
                       \<and> should_have_space_next
                            (get_last_text (pointed processed_element last_element))
                    then space_after processed_element last_element
                    else processed_element)
             in (append_elem processed_element r, LastChild)))"

text \<open>
  The collaborators of the rewriter: \<^verbatim>\<open>clean_element_text(child, from_tail)\<close> and
  \<^verbatim>\<open>trim\<close>, which are not part of the sources at hand, the image test, and
  \<^verbatim>\<open>handle_table(child, potential_tags)\<close>, which is taken as a parameter too. They are
  functions of their arguments.
\<close>

record rewriter =
  r_clean_element_text :: "element \<Rightarrow> bool \<Rightarrow> string option"
  r_trim :: "string \<Rightarrow> string"
  r_is_img :: "string \<Rightarrow> bool"
  r_handle_table :: "element \<Rightarrow> string set \<Rightarrow> element option"

definition trim_opt :: "(string \<Rightarrow> string) \<Rightarrow> string option \<Rightarrow> string option" where
  "trim_opt f x = map_option f x"

text \<open>The tags of the second branch: \<^verbatim>\<open>P_FORMATTING\<close>, \<^verbatim>\<open>p\<close>, \<^verbatim>\<open>div\<close>, \<^verbatim>\<open>FORMATTING\<close>, \<^verbatim>\<open>HEADINGS\<close>.\<close>

definition paragraph_tags :: "string set" where
  "paragraph_tags = {''hi'', ''ref'', ''del'', ''p'', ''div'', ''span'', ''fw'', ''head''}"

text \<open>The attributes that the second branch carries over.\<close>

definition carry_attributes :: "element \<Rightarrow> element \<Rightarrow> element" where
  "carry_attributes child processed_element =
     (if tag child \<in> {''hi'', ''head''} \<and> truthy (get child ''rend'')
      then set_attrib processed_element ''rend'' (the (get child ''rend''))
      else if tag child = ''ref''
      then (if get child ''target'' \<noteq> None
            then set_attrib processed_element ''target'' (the (get child ''target''))
            else if get child ''href'' \<noteq> None
            then set_attrib processed_element ''target'' (the (get child ''href''))
            else processed_element)
      else processed_element)"

text \<open>
  The element that \<^verbatim>\<open>handle_paragraphs_child\<close> builds before it walks the children:
  \<open>Inl\<close> is an early return, \<open>Inr\<close> the processed element.
\<close>

definition start_element ::
  "rewriter \<Rightarrow> string set \<Rightarrow> string set \<Rightarrow> element \<Rightarrow> element option + element" where
  "start_element R potential_tags tags_to_enumerate child =
     (let processed_element = new_element (tag child);
          processed_element = set_text processed_element (r_clean_element_text R child False);
          processed_element = set_tail processed_element (r_clean_element_text R child True)
      in if tag child = ''table'' then Inl (r_handle_table R child potential_tags)
         else
           (case (if tag child \<in> paragraph_tags
                  then Inr (set_tail (set_text (carry_attributes child processed_element)
                                        (text' child)) (tail child))
                  else if tag child = ''graphic'' \<and> ''graphic'' \<in> potential_tags
                  then (case handle_image (r_is_img R) child of
                          None \<Rightarrow> Inl (Some processed_element)
                        | Some g \<Rightarrow> Inr g)
                  else if tag child \<notin> potential_tags \<union> tags_to_enumerate then Inl None
                  else Inr processed_element) of
              Inl r \<Rightarrow> Inl r
            | Inr processed_element \<Rightarrow>
                (let processed_element =
                       (if tag processed_element = ''div'' \<and> truthy (text' processed_element)
                           \<and> strip (str_of (text' processed_element)) \<noteq> []
                        then set_tag processed_element ''p'' else processed_element)
                 in if element_is_empty (Some child) then Inl None
                    else Inr processed_element)))"

text \<open>The spacing at the end of \<^verbatim>\<open>handle_paragraphs_child\<close>, after the children.\<close>

definition finish_element ::
  "rewriter \<Rightarrow> bool \<Rightarrow> bool \<Rightarrow> bool \<Rightarrow> string option \<Rightarrow> element \<Rightarrow> element option" where
  "finish_element R is_root is_last_of_root has_tail next_text processed_element =
     (let pe = set_text processed_element (trim_opt (r_trim R) (text' processed_element));
          pe = set_tail pe (trim_opt (r_trim R) (tail pe));
          pe = (if truthy (tail pe) \<and> (truthy (text' pe) \<or> children pe \<noteq> [])
                   \<and> should_have_space_prior (tail pe) \<and> should_have_space_next (text' pe)
                then set_tail pe (Some ('' '' @ str_of (tail pe))) else pe);
          pe = (if truthy (text' pe) \<and> children pe \<noteq> [] \<and> should_have_space_next (text' pe)
                then set_text pe (Some (str_of (text' pe) @ '' '')) else pe);
          pe = (if \<not> has_tail \<and> \<not> truthy (tail pe) \<and> truthy (text' pe)
                   \<and> ((\<not> is_root \<and> \<not> is_last_of_root) \<or> children pe \<noteq> [])
                   \<and> should_have_space_next (text' pe)
                then set_text pe (Some (str_of (text' pe) @ '' ''))
                else if truthy (tail pe) \<and> \<not> is_last_of_root \<and> \<not> is_root
                        \<and> should_have_space_next (tail pe) \<and> should_have_space_prior next_text
                then set_tail pe (Some (str_of (tail pe) @ '' ''))
                else pe)
      in if element_is_empty (Some pe) then None else Some pe)"

text \<open>
  \<^verbatim>\<open>handle_paragraphs_child\<close>, with the loop over the children (\<^verbatim>\<open>enumerate_now_next\<close>
  gives each child its position and the child after it) and the inner loop over the
  children of a container in \<^verbatim>\<open>tags_to_enumerate\<close>. The state of the loops is the
  processed element with the pointer to the last element. The function marks the elements
  it has consumed with the tag \<^verbatim>\<open>done\<close>; it reads the tag of an element before it marks
  it, so the marks do not change its result and are left out.
\<close>

fun handle_paragraphs_child ::
    "rewriter \<Rightarrow> string set \<Rightarrow> string set \<Rightarrow> element \<Rightarrow> bool \<Rightarrow> bool \<Rightarrow> bool \<Rightarrow> string option
       \<Rightarrow> element option"
  and children_loop ::
    "rewriter \<Rightarrow> string set \<Rightarrow> string set \<Rightarrow> bool \<Rightarrow> bool \<Rightarrow> int \<Rightarrow> int \<Rightarrow> element list
       \<Rightarrow> element \<times> last_pointer \<Rightarrow> element \<times> last_pointer"
  and enumerate_loop ::
    "rewriter \<Rightarrow> string set \<Rightarrow> string set \<Rightarrow> bool \<Rightarrow> bool \<Rightarrow> int \<Rightarrow> int \<Rightarrow> string option
       \<Rightarrow> element list \<Rightarrow> element \<times> last_pointer \<Rightarrow> element \<times> last_pointer" where
  "handle_paragraphs_child R potential_tags tags_to_enumerate (Element t tx ta a cs)
       is_root is_last_of_root has_tail next_text =
     (case start_element R potential_tags tags_to_enumerate (Element t tx ta a cs) of
        Inl r \<Rightarrow> r
      | Inr processed_element \<Rightarrow>
          (let child_len = int (length cs);
               is_last_of_root = (if child_len = 0 \<and> is_root then True else is_last_of_root)
           in finish_element R is_root is_last_of_root has_tail next_text
                (fst (children_loop R potential_tags tags_to_enumerate is_root has_tail
                        child_len 0 cs (processed_element, LastSelf)))))"
| "children_loop R potential_tags tags_to_enumerate is_root has_tail child_len i [] st = st"
| "children_loop R potential_tags tags_to_enumerate is_root has_tail child_len i
       (Element t tx ta a ccs # cs) st =
     (let next_text = (case cs of [] \<Rightarrow> None | n # ns \<Rightarrow> get_first_inline_text n)
      in if t \<in> tags_to_enumerate
         then children_loop R potential_tags tags_to_enumerate is_root has_tail child_len
                (i + 1) cs
                (enumerate_loop R potential_tags tags_to_enumerate is_root has_tail child_len
                   i next_text ccs st)
         else if t \<notin> potential_tags
         then children_loop R potential_tags tags_to_enumerate is_root has_tail child_len
                (i + 1) cs st
         else children_loop R potential_tags tags_to_enumerate is_root has_tail child_len
                (i + 1) cs
                (append_child (fst st)
                   (handle_paragraphs_child R potential_tags tags_to_enumerate
                      (Element t tx ta a ccs) False (is_root \<and> i = child_len - 1)
                      (has_tail \<or> i < child_len - 1 \<or> truthy (tail (fst st))) next_text)
                   (snd st) tags_to_enumerate))"
| "enumerate_loop R potential_tags tags_to_enumerate is_root has_tail child_len i next_text
       [] st = st"
| "enumerate_loop R potential_tags tags_to_enumerate is_root has_tail child_len i next_text
       (ce # ces) st =
     enumerate_loop R potential_tags tags_to_enumerate is_root has_tail child_len i next_text
       ces
       (append_child (fst st)
          (handle_paragraphs_child R potential_tags tags_to_enumerate ce False
             (is_root \<and> i = child_len - 1)
             (has_tail \<or> i < child_len - 1 \<or> truthy (tail (fst st))) next_text)
          (snd st) tags_to_enumerate)"

text \<open>
  The sets that \<^verbatim>\<open>extract_content\<close> starts from (lines 583 to 591); \<^verbatim>\<open>TAG_CATALOG\<close> is
  a parameter.
\<close>

definition initial_potential_tags :: "string set \<Rightarrow> bool \<Rightarrow> bool \<Rightarrow> bool \<Rightarrow> string set" where
  "initial_potential_tags tag_catalog include_tables include_images include_links =
     tag_catalog
     \<union> (if include_tables then {''table'', ''td'', ''th'', ''tr''} else {})
     \<union> (if include_images then {''graphic''} else {})
     \<union> (if include_links then {''ref''} else {})"

definition initial_tags_to_enumerate :: "bool \<Rightarrow> string set" where
  "initial_tags_to_enumerate include_images =
     {''article'', ''main'', ''section'', ''header''}
     \<union> (if include_images then {''figure'', ''picture'', ''source''} else {})"

text \<open>
  The rewriting of one candidate in the loop of \<^verbatim>\<open>extract_content\<close> (lines 630 to 636):
  the rewritten children of the subtree are appended to the body, then the headings at
  the end of the body are removed.
\<close>

fun remove_trailing_titles :: "element list \<Rightarrow> element list" where
  "remove_trailing_titles [] = []"
| "remove_trailing_titles (c # cs) =
     (case remove_trailing_titles cs of
        [] \<Rightarrow> if tag c \<in> {''fw'', ''head''} then [] else [c]
      | r # rs \<Rightarrow> c # r # rs)"

definition rewrite_candidate ::
  "rewriter \<Rightarrow> string set \<Rightarrow> string set \<Rightarrow> element \<Rightarrow> element \<Rightarrow> element" where
  "rewrite_candidate R potential_tags tags_to_enumerate subtree result_body =
     Element (tag result_body) (text' result_body) (tail result_body) (attrib result_body)
       (remove_trailing_titles
          (children result_body
           @ List.map_filter
               (\<lambda>e. handle_paragraphs_child R potential_tags tags_to_enumerate e True False
                       False None)
               (children subtree)))"

text \<open>
  Collaborators of the rewriter for concrete runs: the cleaned text of an element is its
  trimmed text (or tail), absent when there is none; there are no tables. The stand-in for
  \<^verbatim>\<open>TAG_CATALOG\<close> holds the block and inline tags of the package's settings.
\<close>

definition plain_rewriter :: rewriter where
  "plain_rewriter =
     \<lparr>r_clean_element_text = (\<lambda>e from_tail.
          let s = (if from_tail then tail e else text' e)
          in if truthy s then Some (trim_words (str_of s)) else None),
      r_trim = trim_words,
      r_is_img = ends_with_jpg,
      r_handle_table = (\<lambda>e tags. None)\<rparr>"

definition tag_catalog :: "string set" where
  "tag_catalog = {''blockquote'', ''code'', ''del'', ''fw'', ''head'', ''hi'', ''lb'', ''list'',
                  ''p'', ''pre'', ''q'', ''quote''}"

text \<open>
  The candidate \<^verbatim>\<open><article><section><p>a...</p></section><p>b...</p></article>\<close> with
  300 characters in each paragraph.
\<close>

definition section_article :: element where
  "section_article =
     Element ''article'' None None []
       [Element ''section'' None None []
          [Element ''p'' (Some (replicate 300 CHR ''a'')) None [] []],
        Element ''p'' (Some (replicate 300 CHR ''b'')) None [] []]"

section \<open>The pruning of a candidate\<close>

text \<open>
  The loop over the tables in \<^verbatim>\<open>extract_content\<close> (lines 611 to 613) removes elements
  while \<^verbatim>\<open>subtree.iter('table')\<close> is running. The iterator of lxml has the next matching
  element at hand before the body of the loop sees the current one. So when a table that
  holds another table is removed, the iteration goes on inside the removed table, where it
  changes nothing of the subtree any more, and ends there: the tables after it are not
  visited. When the removed table holds no other table, the iteration goes on behind it.
  \<open>prune_tables\<close> returns the element as the loop leaves it (\<open>None\<close> when it is removed,
  with its tail) and whether the iteration has ended; \<open>prune_tables_list\<close> runs over the
  children of one parent. The collaborator \<^verbatim>\<open>link_density_test_tables\<close> is the parameter
  \<open>test\<close>.
\<close>

fun prune_tables :: "(element \<Rightarrow> bool) \<Rightarrow> element \<Rightarrow> element option \<times> bool"
  and prune_tables_list :: "(element \<Rightarrow> bool) \<Rightarrow> element list \<Rightarrow> element list \<times> bool" where
  "prune_tables test (Element t tx ta a cs) =
     (if t = ''table'' \<and> test (Element t tx ta a cs)
      then (None, list_ex (\<lambda>x. tag x = ''table'') (concat (map iter_all cs)))
      else (case prune_tables_list test cs of
              (cs', stop) \<Rightarrow> (Some (Element t tx ta a cs'), stop)))"
| "prune_tables_list test [] = ([], False)"
| "prune_tables_list test (c # cs) =
     (case prune_tables test c of
        (r, stop) \<Rightarrow>
          if stop then ((case r of None \<Rightarrow> [] | Some c' \<Rightarrow> [c']) @ cs, True)
          else (case prune_tables_list test cs of
                  (cs', stop') \<Rightarrow> ((case r of None \<Rightarrow> [] | Some c' \<Rightarrow> [c']) @ cs', stop')))"

text \<open>
  A candidate is the subtree together with the flag \<open>has_parent\<close>: whether it still hangs
  in the document. The root of the subtree is the first element that \<^verbatim>\<open>iter\<close> yields. When
  it is a table to be removed, it is taken out of its parent (\<^verbatim>\<open>AttributeError\<close> when it
  has none) and the iteration goes on below it.
\<close>

definition table_step :: "(element \<Rightarrow> bool) \<Rightarrow> element \<times> bool \<Rightarrow> py_error + (element \<times> bool)" where
  "table_step test st =
     (case st of (subtree, has_parent) \<Rightarrow>
        if tag subtree = ''table'' \<and> test subtree
        then (if has_parent
              then Inr (Element (tag subtree) (text' subtree) (tail subtree) (attrib subtree)
                          (fst (prune_tables_list test (children subtree))), False)
              else Inl AttributeError)
        else Inr (Element (tag subtree) (text' subtree) (tail subtree) (attrib subtree)
                    (fst (prune_tables_list test (children subtree))), has_parent))"

text \<open>
  One call \<^verbatim>\<open>subtree = delete_by_link_density(subtree, tagname, backtracking)\<close> on a
  candidate: when the root is among the deletions, the subtree leaves the document.
\<close>

definition delete_step ::
  "(path \<times> element \<Rightarrow> bool \<times> string list) \<Rightarrow> (string \<Rightarrow> string) \<Rightarrow> string \<Rightarrow> bool
     \<Rightarrow> element \<times> bool \<Rightarrow> py_error + (element \<times> bool)" where
  "delete_step link_density_test trim tagname backtracking st =
     (case st of (subtree, has_parent) \<Rightarrow>
        bind_py (delete_by_link_density link_density_test trim has_parent subtree tagname
                   backtracking)
          (\<lambda>s. Inr (s, has_parent
                        \<and> [] \<notin> set (deletions_of link_density_test trim subtree tagname
                                        backtracking))))"

text \<open>
  The removal by link density in \<^verbatim>\<open>extract_content\<close> (lines 602 to 613): \<^verbatim>\<open>div\<close> with
  backtracking, \<^verbatim>\<open>list\<close>, \<^verbatim>\<open>p\<close>, with \<open>favor_precision\<close> also \<^verbatim>\<open>head\<close>, and the tables
  when \<^verbatim>\<open>table\<close> is a potential tag or with \<open>favor_precision\<close>.
\<close>

definition link_density_pruning ::
  "(path \<times> element \<Rightarrow> bool \<times> string list) \<Rightarrow> (element \<Rightarrow> bool) \<Rightarrow> (string \<Rightarrow> string) \<Rightarrow> bool
     \<Rightarrow> string set \<Rightarrow> element \<times> bool \<Rightarrow> py_error + (element \<times> bool)" where
  "link_density_pruning link_density_test link_density_test_tables trim favor_precision
       potential_tags st =
     bind_py (delete_step link_density_test trim ''div'' True st) (\<lambda>st.
     bind_py (delete_step link_density_test trim ''list'' False st) (\<lambda>st.
     bind_py (delete_step link_density_test trim ''p'' False st) (\<lambda>st.
     bind_py (if favor_precision then delete_step link_density_test trim ''head'' False st
              else Inr st) (\<lambda>st.
       if ''table'' \<in> potential_tags \<or> favor_precision
       then table_step link_density_test_tables st
       else Inr st))))"

text \<open>The texts below a list of children, with their tails.\<close>

definition texts_of :: "element list \<Rightarrow> string list" where
  "texts_of cs = concat (map (\<lambda>c. itertext c @ opt_list (tail c)) cs)"

text \<open>
  A candidate for concrete runs: an article with a title that is a link and a paragraph of
  600 characters. The stand-in for the link-density test flags an element when all its
  text is link text: it has no text of its own, and its children are links. The stand-in
  for the test of the tables flags none.
\<close>

definition links_only_test :: "path \<times> element \<Rightarrow> bool \<times> string list" where
  "links_only_test x =
     (text' (snd x) = None \<and> children (snd x) \<noteq> []
        \<and> list_all (\<lambda>c. tag c = ''ref'') (children (snd x)), [])"

definition linked_title_article :: element where
  "linked_title_article =
     Element ''article'' None None []
       [Element ''head'' None None [(''rend'', ''h2'')]
          [Element ''ref'' (Some (replicate 250 CHR ''c'')) None [(''target'', ''/more'')] []],
        Element ''p'' (Some (replicate 600 CHR ''a'')) None [] []]"

definition paragraph_article :: element where
  "paragraph_article =
     Element ''article'' None None []
       [Element ''p'' (Some (replicate 600 CHR ''a'')) None [] []]"

text \<open>
  The bodies that the rewriting builds from the article with and without its title, and a
  readability result of 1300 characters.
\<close>

definition titled_body :: element where
  "titled_body =
     Element ''body'' None None []
       [Element ''head'' (Some (replicate 250 CHR ''c'')) None [(''rend'', ''h2'')] [],
        Element ''p'' (Some (replicate 600 CHR ''a'')) None [] []]"

definition paragraph_body :: element where
  "paragraph_body =
     Element ''body'' None None [] [Element ''p'' (Some (replicate 600 CHR ''a'')) None [] []]"

definition readable_1300 :: element where
  "readable_1300 =
     Element ''body'' None None [] [Element ''p'' (Some (replicate 1300 CHR ''b'')) None [] []]"

section \<open>Formatting elements inside table cells\<close>

















section \<open>Properties of the whitespace predicates\<close>

text \<open>
  C2. For every string \<open>s\<close>, \<open>should_have_space_prior\<close> is true if and only if \<open>s\<close> is
  empty or its first character is neither a space nor one of \<^verbatim>\<open>. ? ! , : ; )\<close>, and
  \<open>should_have_space_next\<close> is true if and only if \<open>s\<close> is empty or its last character is
  neither a space nor one of \<^verbatim>\<open>[ (\<close>.
\<close>

theorem should_have_space_iff:
  "(should_have_space_prior (Some s) \<longleftrightarrow>
      (s = [] \<or> hd s \<notin> {CHR '' '', CHR ''.'', CHR ''?'', CHR ''!'', CHR '','', CHR '':'',
                          CHR '';'', CHR '')''}))
   \<and> (should_have_space_next (Some s) \<longleftrightarrow>
      (s = [] \<or> last s \<notin> {CHR '' '', CHR ''['', CHR ''(''}))"
proof (cases s)
  case Nil
  then show ?thesis by (simp add: should_have_space_next_def)
next
  case (Cons c cs)
  then show ?thesis by (auto simp: should_have_space_next_def Let_def)
qed

theorem should_have_space_iff_witness:
  "\<not> should_have_space_prior (Some ''.x'') \<and> should_have_space_prior (Some ''x('')
   \<and> \<not> should_have_space_next (Some ''.x('') \<and> should_have_space_next (Some ''(x.'')"
  using should_have_space_iff [of "''.x''"] should_have_space_iff [of "''x(''"]
        should_have_space_iff [of "''.x(''"] should_have_space_iff [of "''(x.''"]
  by simp

section \<open>Properties of the image policy\<close>

lemma map_of_update_attrib:
  "map_of (update_attrib k v al) k' = (if k' = k then Some v else map_of al k')"
  by (induction k v al rule: update_attrib.induct) auto

lemma get_set_attrib: "get (set_attrib e k v) k' = (if k' = k then Some v else get e k')"
  by (simp add: get_def set_attrib_def map_of_update_attrib)

lemma tag_set_attrib: "tag (set_attrib e k v) = tag e"
  by (simp add: set_attrib_def)

lemma get_new_element: "get (new_element t) k = None"
  by (simp add: get_def new_element_def)

lemma get_first_data_src:
  "get (first_data_src is_img e ks p) k' =
     (case find (\<lambda>name. startswith name ''data-src'' \<and> is_image_file is_img (get e name)) ks of
        None \<Rightarrow> get p k'
      | Some name \<Rightarrow> if k' = ''src'' then get e name else get p k')"
  by (induction ks) (auto simp: get_set_attrib is_image_file_def split: option.splits)

lemma tag_first_data_src: "tag (first_data_src is_img e ks p) = tag p"
  by (induction ks) (auto simp: tag_set_attrib)

lemma get_copy_attrib:
  "get (copy_attrib e k p) k' = (if k' = k \<and> get e k \<noteq> None then get e k else get p k')"
  by (auto simp: copy_attrib_def get_set_attrib split: option.splits)

lemma tag_copy_attrib: "tag (copy_attrib e k p) = tag p"
  by (simp add: copy_attrib_def tag_set_attrib split: option.splits)

lemma get_no_attrib: "length (attrib p) = 0 \<Longrightarrow> get p k = None"
  by (simp add: get_def)

lemma sub_protocol_no_slashes: "\<not> startswith (sub_protocol u) ''//''"
  by (auto simp: sub_protocol_def startswith_def)

lemma sub_protocol_nonempty: "u \<noteq> [] \<Longrightarrow> sub_protocol u \<noteq> []"
  by (auto simp: sub_protocol_def)

lemma get_src_chosen:
  "get (copy_attrib e ''title'' (copy_attrib e ''class'' (copy_attrib e ''alt''
       (if is_image_file is_img (get e ''data-src'')
        then set_attrib (new_element t) ''src'' (the (get e ''data-src''))
        else if is_image_file is_img (get e ''src'')
        then set_attrib (new_element t) ''src'' (the (get e ''src''))
        else first_data_src is_img e (map fst (attrib e)) (new_element t))))) ''src''
   = (if is_image_file is_img (get e ''data-src'') then get e ''data-src''
      else if is_image_file is_img (get e ''src'') then get e ''src''
      else case find (\<lambda>name. startswith name ''data-src'' \<and> is_image_file is_img (get e name))
                  (map fst (attrib e)) of
             None \<Rightarrow> None
           | Some name \<Rightarrow> get e name)"
  by (auto simp: get_copy_attrib get_set_attrib get_first_data_src get_new_element
      is_image_file_def split: option.splits)

text \<open>
  C7, as the code has it. Both callers pass \<open>handle_image\<close> an element tagged
  \<^verbatim>\<open>graphic\<close>. The source \<open>chosen\<close> is the value of \<^verbatim>\<open>data-src\<close> when that value is an
  image file, else the value of \<^verbatim>\<open>src\<close> when that value is an image file, else the value
  of the first attribute whose name starts with \<^verbatim>\<open>data-src\<close> and whose value is an image
  file: the test for an image file is made on all three. The result is \<open>None\<close> exactly when
  no source is chosen or the chosen source is empty; otherwise it is an element tagged
  \<^verbatim>\<open>graphic\<close> whose \<^verbatim>\<open>src\<close> is the chosen source with a leading \<^verbatim>\<open>//\<close> replaced by
  \<^verbatim>\<open>http://\<close>; this \<^verbatim>\<open>src\<close> is not empty and does not start with \<^verbatim>\<open>//\<close>; and
  \<^verbatim>\<open>alt\<close>, \<^verbatim>\<open>class\<close> and \<^verbatim>\<open>title\<close> are those of the input.
\<close>

theorem handle_image_graphic:
  assumes "tag element = ''graphic''"
  shows "let chosen =
               (if is_image_file is_img (get element ''data-src'') then get element ''data-src''
                else if is_image_file is_img (get element ''src'') then get element ''src''
                else case find (\<lambda>name. startswith name ''data-src''
                                          \<and> is_image_file is_img (get element name))
                            (map fst (attrib element)) of
                       None \<Rightarrow> None
                     | Some name \<Rightarrow> get element name)
         in case handle_image is_img element of
              None \<Rightarrow> chosen = None \<or> chosen = Some []
            | Some r \<Rightarrow>
                tag r = ''graphic''
                \<and> (\<exists>u. chosen = Some u \<and> u \<noteq> []
                       \<and> get r ''src'' =
                           Some (if startswith u ''//'' then ''http://'' @ drop 2 u else u))
                \<and> (\<exists>v. get r ''src'' = Some v \<and> v \<noteq> [] \<and> \<not> startswith v ''//'')
                \<and> get r ''alt'' = get element ''alt''
                \<and> get r ''class'' = get element ''class''
                \<and> get r ''title'' = get element ''title''"
proof -
  define p where "p = copy_attrib element ''title'' (copy_attrib element ''class''
       (copy_attrib element ''alt''
       (if is_image_file is_img (get element ''data-src'')
        then set_attrib (new_element (tag element)) ''src'' (the (get element ''data-src''))
        else if is_image_file is_img (get element ''src'')
        then set_attrib (new_element (tag element)) ''src'' (the (get element ''src''))
        else first_data_src is_img element (map fst (attrib element))
               (new_element (tag element)))))"
  define chosen where "chosen =
       (if is_image_file is_img (get element ''data-src'') then get element ''data-src''
        else if is_image_file is_img (get element ''src'') then get element ''src''
        else case find (\<lambda>name. startswith name ''data-src''
                                  \<and> is_image_file is_img (get element name))
                    (map fst (attrib element)) of
               None \<Rightarrow> None
             | Some name \<Rightarrow> get element name)"
  have src: "get p ''src'' = chosen"
    unfolding p_def chosen_def by (rule get_src_chosen)
  have tg: "tag p = ''graphic''"
    unfolding p_def using assms
    by (simp add: tag_copy_attrib tag_set_attrib tag_first_data_src new_element_def)
  have others: "get p ''alt'' = get element ''alt''" "get p ''class'' = get element ''class''"
    "get p ''title'' = get element ''title''"
    unfolding p_def
    by (auto simp: get_copy_attrib get_set_attrib get_first_data_src get_new_element
        split: option.splits)
  have hi: "handle_image is_img element =
      (if length (attrib p) = 0 \<or> get p ''src'' = None \<or> get p ''src'' = Some [] then None
       else Some (set_attrib p ''src'' (sub_protocol (the (get p ''src'')))))"
    unfolding p_def handle_image_def Let_def by simp
  have "case handle_image is_img element of
              None \<Rightarrow> chosen = None \<or> chosen = Some []
            | Some r \<Rightarrow>
                tag r = ''graphic''
                \<and> (\<exists>u. chosen = Some u \<and> u \<noteq> []
                       \<and> get r ''src'' =
                           Some (if startswith u ''//'' then ''http://'' @ drop 2 u else u))
                \<and> (\<exists>v. get r ''src'' = Some v \<and> v \<noteq> [] \<and> \<not> startswith v ''//'')
                \<and> get r ''alt'' = get element ''alt''
                \<and> get r ''class'' = get element ''class''
                \<and> get r ''title'' = get element ''title''"
  proof (cases "length (attrib p) = 0 \<or> get p ''src'' = None \<or> get p ''src'' = Some []")
    case True
    then have "get p ''src'' = None \<or> get p ''src'' = Some []"
      using get_no_attrib by blast
    with True show ?thesis by (simp add: hi src)
  next
    case False
    then obtain u where u: "get p ''src'' = Some u" "u \<noteq> []" by auto
    from False have "handle_image is_img element = Some (set_attrib p ''src'' (sub_protocol u))"
      using u by (simp add: hi)
    then show ?thesis
      using u src tg others sub_protocol_no_slashes [of u] sub_protocol_nonempty [of u]
      by (simp add: get_set_attrib tag_set_attrib sub_protocol_def)
  qed
  then show ?thesis
    unfolding Let_def chosen_def .
qed

theorem handle_image_graphic_witness:
  "handle_image ends_with_jpg
     (Element ''graphic'' None None [(''src'', ''//cdn/img.jpg''), (''alt'', ''x'')] [])
   = Some (Element ''graphic'' None None [(''src'', ''http://cdn/img.jpg''), (''alt'', ''x'')] [])
   \<and> is_image_file ends_with_jpg
       (get (Element ''graphic'' None None [(''src'', ''//cdn/img.jpg''), (''alt'', ''x'')] [])
          ''src'')"
  using handle_image_graphic [of "Element ''graphic'' None None [(''src'', ''//cdn/img.jpg''), (''alt'', ''x'')] []" ends_with_jpg]
  by (simp add: handle_image_def ends_with_jpg_def is_image_file_def get_def
      set_attrib_def new_element_def copy_attrib_def sub_protocol_def startswith_def)

text \<open>
  The claim C7 as written fails for the order of the sources: it takes \<^verbatim>\<open>data-src\<close>
  first and \<^verbatim>\<open>src\<close> second whatever their values are. On an element with
  \<^verbatim>\<open>data-src="lazy"\<close> and \<^verbatim>\<open>src="real.jpg"\<close> the words of the claim select
  \<^verbatim>\<open>lazy\<close>, and the code returns \<^verbatim>\<open>real.jpg\<close>; on an element with \<^verbatim>\<open>src="photo"\<close>
  and an \<^verbatim>\<open>alt\<close> the words of the claim select \<^verbatim>\<open>photo\<close>, and the code returns
  \<^verbatim>\<open>None\<close>.
\<close>

theorem handle_image_source_counterexample:
  "src_in_words ends_with_jpg
     (Element ''graphic'' None None [(''data-src'', ''lazy''), (''src'', ''real.jpg'')] [])
   = Some ''lazy''
   \<and> handle_image ends_with_jpg
       (Element ''graphic'' None None [(''data-src'', ''lazy''), (''src'', ''real.jpg'')] [])
     = Some (Element ''graphic'' None None [(''src'', ''real.jpg'')] [])
   \<and> src_in_words ends_with_jpg
       (Element ''graphic'' None None [(''src'', ''photo''), (''alt'', ''x'')] [])
     = Some ''photo''
   \<and> handle_image ends_with_jpg
       (Element ''graphic'' None None [(''src'', ''photo''), (''alt'', ''x'')] [])
     = None"
  by code_simp

section \<open>Properties of the baseline extraction\<close>

lemma scrape_json_shape:
  "scrape_json trim elems = Some r \<Longrightarrow> \<exists>b s. r = (b, PyStr s, PyInt (int (length s)))"
  by (induction elems) (auto simp: Let_def split: if_splits option.splits)

lemma baseline_parsed_shape:
  assumes "load_html filecontent = Some tree"
  shows "\<exists>b s. baseline trim load_html filecontent = (b, PyStr s, PyInt (int (length s)))"
proof (cases "scrape_json trim (filter is_ld_json (descendants tree))")
  case None
  then show ?thesis
    using assms by (simp add: baseline_def Let_def)
next
  case (Some r)
  then show ?thesis
    using assms scrape_json_shape [OF Some] by (auto simp: baseline_def Let_def)
qed

text \<open>
  C10. When the HTML loader fails to parse the input, \<open>baseline\<close> returns an empty
  \<^verbatim>\<open>body\<close> element, the integer 0 in second place and the empty string in third place.
  On every other return path the second component is the text, a string, and the third is
  the length of that text, an integer.
\<close>

theorem baseline_unparsed_swapped:
  "(load_html filecontent = None \<longrightarrow>
      baseline trim load_html filecontent = (Element ''body'' None None [] [], PyInt 0, PyStr []))
   \<and> (load_html filecontent \<noteq> None \<longrightarrow>
      (\<exists>b s. baseline trim load_html filecontent = (b, PyStr s, PyInt (int (length s)))))"
proof (cases "load_html filecontent")
  case None
  then show ?thesis by (simp add: baseline_def new_element_def)
next
  case (Some tree)
  then show ?thesis
    using baseline_parsed_shape [of load_html filecontent tree trim] by simp
qed

theorem baseline_unparsed_swapped_witness:
  "baseline trim_words (\<lambda>x. None) two_member_doc
     = (Element ''body'' None None [] [], PyInt 0, PyStr [])
   \<and> (\<exists>b s. baseline trim_words Some two_member_doc = (b, PyStr s, PyInt (int (length s))))"
  using baseline_unparsed_swapped [of "\<lambda>x. None" two_member_doc trim_words]
        baseline_unparsed_swapped [of Some two_member_doc trim_words]
  by simp

text \<open>
  C6. On the document that holds only the script
  \<^verbatim>\<open>{"articleBody":"X"}\<close>, the pattern of \<open>baseline\<close> does not match, because it asks
  for \<^verbatim>\<open>","\<close> after the value: the result is an empty body and the empty text, not a
  body with one \<^verbatim>\<open>p\<close> holding \<^verbatim>\<open>X\<close>. A loader that rejects the document gives an
  empty body as well.
\<close>

theorem baseline_only_articlebody:
  "baseline trim_words Some only_articlebody_doc
     = (Element ''body'' None None [] [], PyStr [], PyInt 0)
   \<and> baseline trim_words (\<lambda>doc. None) only_articlebody_doc
     = (Element ''body'' None None [] [], PyInt 0, PyStr [])
   \<and> search_articlebody only_articlebody_json = None"
  by code_simp

text \<open>
  With a second member after \<^verbatim>\<open>articleBody\<close> the pattern matches, and the body has one
  \<^verbatim>\<open>p\<close> with the text \<^verbatim>\<open>X\<close>.
\<close>

lemma baseline_two_members:
  "baseline trim_words Some two_member_doc
     = (Element ''body'' None None [] [Element ''p'' (Some ''X'') None [] []], PyStr ''X'', PyInt 1)"
  by code_simp

section \<open>Properties of the arbiter\<close>

lemma split_words_replicate:
  "\<not> is_space c \<Longrightarrow>
     split_words w (replicate n c) = (if w @ replicate n c = [] then [] else [w @ replicate n c])"
proof (induction n arbitrary: w)
  case 0
  then show ?case by simp
next
  case (Suc n)
  then show ?case by (simp add: replicate_app_Cons_same)
qed

lemma trim_words_replicate: "\<not> is_space c \<Longrightarrow> trim_words (replicate n c) = replicate n c"
  by (simp add: trim_words_def split_words_replicate)

lemma not_space_ab: "\<not> is_space CHR ''a''" "\<not> is_space CHR ''b''"
  by (simp_all add: is_space_def)

lemma algo_flag_rows:
  assumes "0 \<le> len_text" and "0 \<le> len_algo"
  shows "(len_algo = 0 \<or> len_algo = len_text \<longrightarrow> \<not> algo_flag cfg body len_text len_algo)
       \<and> (len_text = 0 \<and> len_algo > 0 \<longrightarrow> algo_flag cfg body len_text len_algo)
       \<and> (len_text > 2 * len_algo \<longrightarrow> \<not> algo_flag cfg body len_text len_algo)
       \<and> (len_algo > 2 * len_text \<longrightarrow> algo_flag cfg body len_text len_algo)
       \<and> (len_algo \<noteq> 0 \<and> len_algo \<noteq> len_text \<and> len_text \<noteq> 0 \<and> len_text \<le> 2 * len_algo \<and> len_algo \<le> 2 * len_text \<longrightarrow>
            (algo_flag cfg body len_text len_algo \<longleftrightarrow>
               len_algo > 2 * MIN_EXTRACTED_SIZE cfg
               \<and> (no_p_or_quote_text body
                  \<or> length (xpath_all ''table'' body) > length (xpath_all ''p'' body))))"
  using assms by (auto simp: algo_flag_def)

text \<open>
  The decision of \<open>compare_extraction\<close>, row by row. Let \<open>L1 \<ge> 0\<close> be the length of the
  custom text and \<open>L2\<close> the length of the trimmed text of the readability result on the
  backup tree. With \<open>favor_recall\<close> and \<open>L1 > 10 \<times> MIN_EXTRACTED_SIZE\<close> the custom result
  is returned, whatever the collaborators are. Otherwise the result is the rescue step
  applied to the readability triple when \<open>algo_flag\<close> holds and to the custom triple when
  it does not, where: the flag is false when \<open>L2\<close> is 0 or equals \<open>L1\<close>; true when
  \<open>L1 = 0\<close> and \<open>L2 > 0\<close>; false when \<open>L1 > 2 L2\<close>; true when \<open>L2 > 2 L1\<close>; and in the
  remaining cases true exactly when \<open>L2 > 2 \<times> MIN_EXTRACTED_SIZE\<close> and either the node set
  of \<^verbatim>\<open>//p|quote//text()\<close> is empty, or the body has more \<^verbatim>\<open>table\<close> than \<^verbatim>\<open>p\<close>
  elements.
\<close>

theorem compare_extraction_decision:
  assumes "0 \<le> len_text"
  shows
    "let B2 = ext_try_readability ext backup_tree url;
         T2 = ext_trim ext (join '' '' (itertext B2));
         len_algo = int (length T2);
         readability = algo_flag cfg body len_text len_algo
     in (favor_recall \<and> len_text > 10 * MIN_EXTRACTED_SIZE cfg \<longrightarrow>
           compare_extraction ext cfg tree backup_tree url body temp_text len_text target_language
             favor_precision favor_recall include_formatting include_links include_images
             include_tables = (body, temp_text, len_text))
      \<and> (\<not> (favor_recall \<and> len_text > 10 * MIN_EXTRACTED_SIZE cfg) \<longrightarrow>
           compare_extraction ext cfg tree backup_tree url body temp_text len_text target_language
             favor_precision favor_recall include_formatting include_links include_images
             include_tables
           = rescue ext cfg tree url target_language favor_recall include_formatting
               include_links include_images include_tables readability
               (if readability then (B2, T2, len_algo) else (body, temp_text, len_text)))
      \<and> (len_algo = 0 \<or> len_algo = len_text \<longrightarrow> \<not> readability)
      \<and> (len_text = 0 \<and> len_algo > 0 \<longrightarrow> readability)
      \<and> (len_text > 2 * len_algo \<longrightarrow> \<not> readability)
      \<and> (len_algo > 2 * len_text \<longrightarrow> readability)
      \<and> (len_algo \<noteq> 0 \<and> len_algo \<noteq> len_text \<and> len_text \<noteq> 0 \<and> len_text \<le> 2 * len_algo \<and> len_algo \<le> 2 * len_text \<longrightarrow>
            (readability \<longleftrightarrow>
               len_algo > 2 * MIN_EXTRACTED_SIZE cfg
               \<and> (no_p_or_quote_text body
                  \<or> length (xpath_all ''table'' body) > length (xpath_all ''p'' body))))"
proof -
  define len_algo where "len_algo = int (length (ext_trim ext (join '' '' (itertext (ext_try_readability ext backup_tree url)))))"
  have "0 \<le> len_algo" by (simp add: len_algo_def)
  from algo_flag_rows [OF assms this, of cfg body]
  show ?thesis
    unfolding Let_def len_algo_def [symmetric]
    by (simp add: compare_extraction_def Let_def len_algo_def mult.commute)
qed

theorem compare_extraction_decision_witness:
  "algo_flag default_config custom_3000 3000 7000
   \<and> compare_extraction (plain_external readable_7000) default_config empty_doc empty_doc None
       custom_3000 (replicate 3000 CHR ''a'') 3000 None False True False False False True
     = (custom_3000, replicate 3000 CHR ''a'', 3000)"
  using compare_extraction_decision [where len_text = 3000 and ext = "plain_external readable_7000"
      and cfg = default_config and body = custom_3000 and favor_recall = True
      and tree = empty_doc and backup_tree = empty_doc and url = None
      and temp_text = "replicate 3000 CHR ''a''" and target_language = None
      and favor_precision = False and include_formatting = False and include_links = False
      and include_images = False and include_tables = True]
  by (simp add: Let_def plain_external_def readable_7000_def opt_list_def
      trim_words_replicate not_space_ab default_config_def)

text \<open>
  C1. The table of the claim and the code part in the borderline cases. The custom body
  below holds 600 characters in a list and a \<^verbatim>\<open>p\<close> with an image only, so it has no text
  in a \<^verbatim>\<open>p\<close> or \<^verbatim>\<open>quote\<close>; the readability text has 700 characters; the lengths are a
  borderline case and \<open>700 > 2 \<times> 250\<close>. The table adopts readability. The code keeps the
  custom result: its test \<^verbatim>\<open>body.xpath('//p|quote//text()')\<close> is the union of \<^verbatim>\<open>//p\<close>
  and \<^verbatim>\<open>quote//text()\<close>, and \<^verbatim>\<open>//p\<close> selects the paragraph that holds the image. The
  sibling test of \<^verbatim>\<open>extract_content\<close> (line 618) is written \<^verbatim>\<open>//p//text()\<close>.
\<close>

theorem compare_extraction_table_counterexample:
  "table_adopts_readability default_config list_and_image_body 600 700
   \<and> join '' '' (itertext list_and_image_body) = replicate 600 CHR ''a''
   \<and> int (length (ext_trim (plain_external readable_700)
              (join '' '' (itertext (ext_try_readability (plain_external readable_700)
                 empty_doc None))))) = 700
   \<and> compare_extraction (plain_external readable_700) default_config empty_doc empty_doc None
       list_and_image_body (replicate 600 CHR ''a'') 600 None False False False False True True
     = (list_and_image_body, replicate 600 CHR ''a'', 600)"
  by (simp add: compare_extraction_def plain_external_def readable_700_def opt_list_def
      trim_words_replicate not_space_ab algo_flag_def default_config_def rescue_def
      no_p_or_quote_text_def xpath_all_def list_and_image_body_def
      table_adopts_readability_def p_quote_text_def text_content_def)

section \<open>Properties of the fallback step\<close>

text \<open>
  C5, as the code has it. With \<open>no_fallback\<close> set, \<open>compare_extraction\<close> is not
  called, and \<open>baseline\<close> is called exactly when \<open>sure_thing\<close> is false and the
  length of the extracted text is below \<^verbatim>\<open>MIN_EXTRACTED_SIZE\<close>; otherwise the result of
  the content extractor is kept.
\<close>

theorem no_fallback_step:
  "compare_if_necessary ext cfg load_html filecontent tree backup_tree url True
       target_language favor_precision favor_recall include_formatting include_links
       include_images include_tables (postbody, temp_text, len_text, sure_thing)
   = (if \<not> sure_thing \<and> len_text < MIN_EXTRACTED_SIZE cfg
      then (baseline (ext_trim ext) load_html filecontent, [CallBaseline])
      else ((postbody, PyStr temp_text, PyInt len_text), []))"
  by (simp add: compare_if_necessary_def)

theorem no_fallback_step_witness:
  "compare_if_necessary (plain_external readable_700) default_config Some short_doc short_doc
       short_doc None True None False False False False False True
       (custom_3000, replicate 3000 CHR ''a'', 3000, True)
   = ((custom_3000, PyStr (replicate 3000 CHR ''a''), PyInt 3000), [])"
  using no_fallback_step [of "plain_external readable_700" default_config Some short_doc
      short_doc short_doc None None False False False False False True custom_3000
      "replicate 3000 CHR ''a''" 3000 True]
  by simp

text \<open>
  The claim C5 as written fails where the content extractor returns a body that is not
  empty with a short text: the body has a child, and \<open>baseline\<close> is called.
\<close>

theorem no_fallback_baseline_counterexample:
  "children short_body \<noteq> []
   \<and> snd (compare_if_necessary (plain_external readable_700) default_config Some short_doc
            short_doc short_doc None True None False False False False False True
            (short_body, ''Hi'', 2, False))
     = [CallBaseline]"
  by (simp add: compare_if_necessary_def short_body_def default_config_def)

section \<open>Properties of the link-density pruner\<close>

lemma iter_paths_prefix:
  "(p, x) \<in> set (iter_paths pre e) \<Longrightarrow> \<exists>s. p = pre @ s"
  "(p, x) \<in> set (iter_paths_list pre i cs) \<Longrightarrow> \<exists>j s. p = pre @ j # s \<and> i \<le> j"
proof (induction pre e and pre i cs arbitrary: p x and p x rule: iter_paths_iter_paths_list.induct)
  case (1 pre t tx ta a cs)
  then show ?case by fastforce
next
  case (2 pre i)
  then show ?case by simp
next
  case (3 pre i c cs)
  from "3.prems" consider "(p, x) \<in> set (iter_paths (pre @ [i]) c)"
    | "(p, x) \<in> set (iter_paths_list pre (Suc i) cs)" by auto
  then show ?case
  proof cases
    case 1
    from "3.IH"(1) [OF this] obtain s where "p = (pre @ [i]) @ s" by blast
    then show ?thesis by auto
  next
    case 2
    from "3.IH"(2) [OF this] obtain j s where "p = pre @ j # s" "Suc i \<le> j" by blast
    then show ?thesis by (intro exI [of _ j] exI [of _ s]) simp
  qed
qed

lemma iter_paths_distinct:
  "distinct (map fst (iter_paths pre e))"
  "distinct (map fst (iter_paths_list pre i cs))"
proof (induction pre e and pre i cs rule: iter_paths_iter_paths_list.induct)
  case (1 pre t tx ta a cs)
  have "pre \<notin> fst ` set (iter_paths_list pre 0 cs)"
  proof
    assume "pre \<in> fst ` set (iter_paths_list pre 0 cs)"
    then obtain x where "(pre, x) \<in> set (iter_paths_list pre 0 cs)" by auto
    from iter_paths_prefix(2) [OF this] show False by auto
  qed
  with 1 show ?case by simp
next
  case (2 pre i)
  then show ?case by simp
next
  case (3 pre i c cs)
  have "fst ` set (iter_paths (pre @ [i]) c) \<inter> fst ` set (iter_paths_list pre (Suc i) cs) = {}"
  proof (rule ccontr)
    assume "\<not> ?thesis"
    then obtain p x y where x: "(p, x) \<in> set (iter_paths (pre @ [i]) c)"
      and y: "(p, y) \<in> set (iter_paths_list pre (Suc i) cs)" by fastforce
    from iter_paths_prefix(1) [OF x] obtain s where s: "p = (pre @ [i]) @ s" by blast
    from iter_paths_prefix(2) [OF y] obtain j s' where j: "p = pre @ j # s'" "Suc i \<le> j"
      by blast
    from s j show False by simp
  qed
  with 3 show ?case by simp
qed

lemma collect_deletions:
  "snd (collect ldt trim bt xs (m, d)) = d @ map fst (filter (\<lambda>x. fst (ldt x)) xs)"
  by (induction xs arbitrary: m d) (auto split: prod.splits)

lemma map_of_add_elem:
  "map_of (add_elem k p m) k' =
     (if k' = k then Some ((case map_of m k of None \<Rightarrow> [] | Some ps \<Rightarrow> ps) @ [p])
      else map_of m k')"
  by (induction k p m rule: add_elem.induct) auto

lemma keys_add_elem: "set (map fst (add_elem k p m)) = insert k (set (map fst m))"
  by (induction k p m rule: add_elem.induct) auto

lemma distinct_add_elem: "distinct (map fst m) \<Longrightarrow> distinct (map fst (add_elem k p m))"
proof (induction k p m rule: add_elem.induct)
  case (1 k p)
  then show ?case by simp
next
  case (2 k p k' ps m)
  then show ?case using keys_add_elem [of k p m] by auto
qed

lemma collect_distinct_keys:
  "distinct (map fst m) \<Longrightarrow> distinct (map fst (fst (collect ldt trim bt xs (m, d))))"
  by (induction xs arbitrary: m d) (auto split: prod.splits simp: distinct_add_elem)

lemma collect_myelems:
  "map_of (fst (collect ldt trim bt xs (m, d))) k =
     (let new = map fst (filter (\<lambda>x. \<not> fst (ldt x) \<and> bt \<and> snd (ldt x) \<noteq> []
                                   \<and> trim (text_content (snd x)) = k) xs)
      in case map_of m k of
           None \<Rightarrow> if new = [] then None else Some new
         | Some ps \<Rightarrow> Some (ps @ new))"
proof (induction xs arbitrary: m d)
  case Nil
  then show ?case by (simp split: option.splits)
next
  case (Cons x xs)
  obtain r tl where l: "ldt x = (r, tl)" by (cases "ldt x")
  show ?case
  proof (cases "r \<or> \<not> (bt \<and> tl \<noteq> [])")
    case True
    then show ?thesis using l Cons.IH [of m] by (auto simp: Let_def)
  next
    case False
    then show ?thesis
      using l Cons.IH [of "add_elem (trim (text_content (snd x))) (fst x) m" d]
      by (auto simp: Let_def map_of_add_elem split: option.splits)
  qed
qed

lemma set_summing_up:
  "p \<in> set (summing_up m d) \<longleftrightarrow>
     p \<in> set d
     \<or> (\<exists>k ps. (k, ps) \<in> set m \<and> 0 < length k \<and> length k < 100 \<and> 3 \<le> length ps
            \<and> p \<in> set ps)"
proof (induction m d rule: summing_up.induct)
  case (1 d)
  then show ?case by simp
next
  case (2 k elem m d)
  show ?case
  proof (cases "0 < length k \<and> length k < 100 \<and> 3 \<le> length elem")
    case True
    then have "p \<in> set (summing_up ((k, elem) # m) d) \<longleftrightarrow> p \<in> set (summing_up m (d @ elem))"
      by simp
    also have "\<dots> \<longleftrightarrow> p \<in> set (d @ elem)
       \<or> (\<exists>k ps. (k, ps) \<in> set m \<and> 0 < length k \<and> length k < 100 \<and> 3 \<le> length ps
            \<and> p \<in> set ps)"
      using "2.IH"(1) True by simp
    also have "\<dots> \<longleftrightarrow> p \<in> set d
       \<or> (\<exists>k' ps. (k', ps) \<in> set ((k, elem) # m) \<and> 0 < length k' \<and> length k' < 100
            \<and> 3 \<le> length ps \<and> p \<in> set ps)"
      using True by auto
    finally show ?thesis .
  next
    case False
    then have "p \<in> set (summing_up ((k, elem) # m) d) \<longleftrightarrow> p \<in> set (summing_up m d)"
      by auto
    also have "\<dots> \<longleftrightarrow> p \<in> set d
       \<or> (\<exists>k ps. (k, ps) \<in> set m \<and> 0 < length k \<and> length k < 100 \<and> 3 \<le> length ps
            \<and> p \<in> set ps)"
      using "2.IH"(2) False by simp
    also have "\<dots> \<longleftrightarrow> p \<in> set d
       \<or> (\<exists>k' ps. (k', ps) \<in> set ((k, elem) # m) \<and> 0 < length k' \<and> length k' < 100
            \<and> 3 \<le> length ps \<and> p \<in> set ps)"
      using False by auto
    finally show ?thesis .
  qed
qed

lemma set_uniquify_list: "set (uniquify_list xs) = set xs"
  by (simp add: uniquify_list_def)

lemma distinct_uniquify_list: "distinct (uniquify_list xs)"
  by (simp add: uniquify_list_def)

lemma deletions_of_backtracking:
  fixes ldt trim subtree tagname
  defines "xs \<equiv> filter (\<lambda>x. tag (snd x) = tagname) (iter_paths [] subtree)"
  defines "key \<equiv> \<lambda>x. trim (text_content (snd x))"
  defines "cand \<equiv> \<lambda>x. \<not> fst (ldt x) \<and> snd (ldt x) \<noteq> []"
  assumes x: "x \<in> set xs"
  shows "fst x \<in> set (deletions_of ldt trim subtree tagname True) \<longleftrightarrow>
           fst (ldt x)
           \<or> (cand x \<and> 3 \<le> length (filter (\<lambda>y. cand y \<and> key y = key x) xs)
              \<and> 0 < length (key x) \<and> length (key x) < 100)"
proof -
  obtain m d where c: "collect ldt trim True xs ([], []) = (m, d)"
    by (cases "collect ldt trim True xs ([], [])")
  have d: "d = map fst (filter (\<lambda>x. fst (ldt x)) xs)"
    using collect_deletions [of ldt trim True xs "[]" "[]"] c by simp
  have dm: "distinct (map fst m)"
    using collect_distinct_keys [of "[]" ldt trim True xs "[]"] c by simp
  have m: "map_of m k =
      (if filter (\<lambda>y. cand y \<and> key y = k) xs = [] then None
       else Some (map fst (filter (\<lambda>y. cand y \<and> key y = k) xs)))" for k
    using collect_myelems [of ldt trim True xs "[]" "[]" k] c
    by (simp add: Let_def cand_def key_def conj_ac)
  have dx: "distinct (map fst xs)"
    unfolding xs_def using iter_paths_distinct(1) [of "[]" subtree]
    by (simp add: distinct_map_filter)
  have inj: "y \<in> set xs \<Longrightarrow> fst y = fst x \<Longrightarrow> y = x" for y
    using dx x by (meson distinct_map inj_onD)
  have del: "set (deletions_of ldt trim subtree tagname True) = set (summing_up m d)"
    using c by (simp add: deletions_of_def xs_def set_uniquify_list)
  show ?thesis
  proof
    assume "fst x \<in> set (deletions_of ldt trim subtree tagname True)"
    then have "fst x \<in> set d \<or> (\<exists>k ps. (k, ps) \<in> set m \<and> 0 < length k \<and> length k < 100
        \<and> 3 \<le> length ps \<and> fst x \<in> set ps)"
      unfolding del by (simp only: set_summing_up)
    then show "fst (ldt x)
           \<or> (cand x \<and> 3 \<le> length (filter (\<lambda>y. cand y \<and> key y = key x) xs)
              \<and> 0 < length (key x) \<and> length (key x) < 100)"
    proof
      assume "fst x \<in> set d"
      then obtain y where y: "y \<in> set xs" "fst (ldt y)" "fst y = fst x" by (auto simp: d)
      from inj [OF y(1) y(3)] y(2) show ?thesis by simp
    next
      assume "\<exists>k ps. (k, ps) \<in> set m \<and> 0 < length k \<and> length k < 100
        \<and> 3 \<le> length ps \<and> fst x \<in> set ps"
      then obtain k ps where k: "(k, ps) \<in> set m" "0 < length k" "length k < 100"
        "3 \<le> length ps" "fst x \<in> set ps" by blast
      from k(1) dm have "map_of m k = Some ps" by simp
      with m [of k] have ps: "ps = map fst (filter (\<lambda>y. cand y \<and> key y = k) xs)"
        by (simp split: if_splits)
      with k(5) obtain y where y: "y \<in> set xs" "cand y" "key y = k" "fst y = fst x" by auto
      from inj [OF y(1) y(4)] y(2,3) have "cand x" "key x = k" by auto
      with k ps show ?thesis by simp
    qed
  next
    assume "fst (ldt x)
           \<or> (cand x \<and> 3 \<le> length (filter (\<lambda>y. cand y \<and> key y = key x) xs)
              \<and> 0 < length (key x) \<and> length (key x) < 100)"
    then show "fst x \<in> set (deletions_of ldt trim subtree tagname True)"
    proof
      assume "fst (ldt x)"
      with x have "fst x \<in> set d" by (auto simp: d)
      then show ?thesis unfolding del by (simp only: set_summing_up) simp
    next
      assume a: "cand x \<and> 3 \<le> length (filter (\<lambda>y. cand y \<and> key y = key x) xs)
              \<and> 0 < length (key x) \<and> length (key x) < 100"
      let ?ps = "map fst (filter (\<lambda>y. cand y \<and> key y = key x) xs)"
      from a x have ne: "filter (\<lambda>y. cand y \<and> key y = key x) xs \<noteq> []"
        by (auto simp: filter_empty_conv)
      with m [of "key x"] have "map_of m (key x) = Some ?ps" by simp
      then have "(key x, ?ps) \<in> set m" by (rule map_of_SomeD)
      moreover from a x have "fst x \<in> set ?ps" by auto
      ultimately have "\<exists>k ps. (k, ps) \<in> set m \<and> 0 < length k \<and> length k < 100
        \<and> 3 \<le> length ps \<and> fst x \<in> set ps"
        using a by (intro exI [of _ "key x"] exI [of _ ?ps]) simp
      then show ?thesis unfolding del by (simp only: set_summing_up) simp
    qed
  qed
qed

text \<open>
  C8. Let the candidates be the elements of the target tag whose link-density test is
  negative with a non-empty auxiliary list, and the group of a candidate the candidates with
  the same trimmed text content. With backtracking the loop files every candidate under its
  trimmed text, in a list that is its group; a candidate is among the deletions exactly when
  its group has at least 3 elements and the length of the text is strictly between 0 and
  100; every element whose test is positive is among the deletions; the deletions that are
  applied are free of duplicates; and the result is the subtree without them.
\<close>

theorem delete_by_link_density_backtracking:
  "let xs = filter (\<lambda>x. tag (snd x) = tagname) (iter_paths [] subtree);
       key = (\<lambda>x. trim (text_content (snd x)));
       cand = (\<lambda>x. \<not> fst (link_density_test x) \<and> snd (link_density_test x) \<noteq> []);
       group = (\<lambda>x. filter (\<lambda>y. cand y \<and> key y = key x) xs);
       deletions = deletions_of link_density_test trim subtree tagname True
   in (\<forall>x \<in> set xs. cand x \<longrightarrow>
         map_of (fst (collect link_density_test trim True xs ([], []))) (key x)
           = Some (map fst (group x))
         \<and> (fst x \<in> set deletions \<longleftrightarrow>
              3 \<le> length (group x) \<and> 0 < length (key x) \<and> length (key x) < 100))
    \<and> (\<forall>x \<in> set xs. fst (link_density_test x) \<longrightarrow> fst x \<in> set deletions)
    \<and> distinct deletions
    \<and> delete_by_link_density link_density_test trim True subtree tagname True
        = Inr (remove_paths deletions subtree)"
proof -
  let ?xs = "filter (\<lambda>x. tag (snd x) = tagname) (iter_paths [] subtree)"
  let ?key = "\<lambda>x. trim (text_content (snd x))"
  let ?cand = "\<lambda>x. \<not> fst (link_density_test x) \<and> snd (link_density_test x) \<noteq> []"
  let ?group = "\<lambda>x. filter (\<lambda>y. ?cand y \<and> ?key y = ?key x) ?xs"
  let ?ds = "deletions_of link_density_test trim subtree tagname True"
  have a: "map_of (fst (collect link_density_test trim True ?xs ([], []))) (?key x)
      = Some (map fst (?group x))" if "x \<in> set ?xs" "?cand x" for x
  proof -
    from that have "?group x \<noteq> []" by (auto simp: filter_empty_conv)
    then show ?thesis
      using collect_myelems [of link_density_test trim True ?xs "[]" "[]" "?key x"]
      by (simp add: Let_def conj_ac)
  qed
  have b: "fst x \<in> set ?ds \<longleftrightarrow>
      3 \<le> length (?group x) \<and> 0 < length (?key x) \<and> length (?key x) < 100"
    if "x \<in> set ?xs" "?cand x" for x
    using deletions_of_backtracking [OF that(1), of link_density_test trim] that(2) by simp
  have c: "fst x \<in> set ?ds" if "x \<in> set ?xs" "fst (link_density_test x)" for x
    using deletions_of_backtracking [OF that(1), of link_density_test trim] that(2) by simp
  have d: "distinct ?ds"
    by (simp add: deletions_of_def distinct_uniquify_list split: prod.splits)
  have e: "delete_by_link_density link_density_test trim True subtree tagname True
        = Inr (remove_paths ?ds subtree)"
    by (simp add: delete_by_link_density_def)
  from a b c d e show ?thesis unfolding Let_def by blast
qed

theorem delete_by_link_density_backtracking_witness:
  "[0] \<in> set (deletions_of short_links_test trim_words nav_block ''div'' True)
   \<and> delete_by_link_density short_links_test trim_words True nav_block ''div'' True
      = Inr (Element ''div'' None None []
               [Element ''p'' (Some ''Some text.'') None [] [],
                Element ''div'' (Some ''About'') None [] []])"
proof -
  let ?x = "([0], Element ''div'' (Some ''Home'') None [] [])"
  let ?xs = "filter (\<lambda>x. tag (snd x) = ''div'') (iter_paths [] nav_block)"
  let ?key = "\<lambda>x. trim_words (text_content (snd x))"
  let ?cand = "\<lambda>x. \<not> fst (short_links_test x) \<and> snd (short_links_test x) \<noteq> []"
  note t = delete_by_link_density_backtracking
    [of "''div''" nav_block trim_words short_links_test, unfolded Let_def]
  have mem: "?x \<in> set ?xs"
    by (simp add: nav_block_def)
  have cand: "?cand ?x"
    by (simp add: short_links_test_def)
  have group: "3 \<le> length (filter (\<lambda>y. ?cand y \<and> ?key y = ?key ?x) ?xs)
      \<and> 0 < length (?key ?x) \<and> length (?key ?x) < 100"
    by code_simp
  note iff = t [THEN conjunct1, rule_format, OF mem cand, THEN conjunct2]
  from iff group have one: "[0] \<in> set (deletions_of short_links_test trim_words nav_block ''div'' True)"
    by simp
  have ds: "deletions_of short_links_test trim_words nav_block ''div'' True = [[0], [1], [3]]"
    by code_simp
  note res = t [THEN conjunct2, THEN conjunct2, THEN conjunct2]
  have "remove_paths [[0], [1], [3]] nav_block
      = Element ''div'' None None []
               [Element ''p'' (Some ''Some text.'') None [] [],
                Element ''div'' (Some ''About'') None [] []]"
    by code_simp
  with res one show ?thesis by (simp add: ds)
qed

section \<open>Properties of the output filter\<close>

lemma tag_strip_elements: "tag (strip_elements t e) = tag e"
  by (cases e) simp

lemma iter_all_children: "iter_all c = c # concat (map iter_all (children c))"
  by (cases c) simp

lemma set_iter_all: "set (iter_all c) = insert c (set (descendants c))"
  by (cases c) (simp add: descendants_def)

lemma strip_elements_no_tag:
  "\<forall>x \<in> set (descendants (strip_elements t e)). tag x \<noteq> t"
  "\<forall>x \<in> set (concat (map iter_all (strip_elements_list t cs))). tag x \<noteq> t"
proof (induction t e and t cs rule: strip_elements_strip_elements_list.induct)
  case (1 t tg tx ta a cs)
  have "descendants (strip_elements t (Element tg tx ta a cs))
      = concat (map iter_all (strip_elements_list t cs))"
    by (simp add: descendants_def)
  with 1 show ?case by simp
next
  case (2 t)
  then show ?case by simp
next
  case (3 t c cs)
  show ?case
  proof (cases "tag c = t")
    case True
    with 3 show ?thesis by simp
  next
    case False
    have "set (concat (map iter_all (strip_elements_list t (c # cs))))
        = insert (strip_elements t c) (set (descendants (strip_elements t c)))
          \<union> set (concat (map iter_all (strip_elements_list t cs)))"
      using False by (simp add: set_iter_all)
    moreover have "tag (strip_elements t c) \<noteq> t"
      using False by (simp add: tag_strip_elements)
    ultimately show ?thesis
      using 3(2) [OF False] 3(3) [OF False] by (metis Un_iff insert_iff)
  qed
qed

lemma tags_below_simps:
  "tags_below [] = {}"
  "tags_below (c # cs) = insert (tag c) (tags_below (children c)) \<union> tags_below cs"
  "tags_below (xs @ ys) = tags_below xs \<union> tags_below ys"
proof -
  show "tags_below [] = {}" by (simp add: tags_below_def)
  have "set (iter_all c) = insert c (set (concat (map iter_all (children c))))"
    using iter_all_children [of c] by (metis list.simps(15))
  then show "tags_below (c # cs) = insert (tag c) (tags_below (children c)) \<union> tags_below cs"
    by (simp add: tags_below_def image_Un)
  show "tags_below (xs @ ys) = tags_below xs \<union> tags_below ys"
    by (simp add: tags_below_def image_Un)
qed

lemma tags_below_retail:
  "tags_below [Element (tag e) (text' e) s (attrib e) (children e)] = tags_below [e]"
  by (simp add: tags_below_simps)

lemma tags_below_add_text: "tags_below (snd (add_text s st)) = tags_below (snd st)"
proof (cases st)
  case (Pair ptext out)
  show ?thesis
  proof (cases "out = []")
    case True
    with Pair show ?thesis by (simp add: add_text_def)
  next
    case False
    then have "tags_below out = tags_below (butlast out) \<union> tags_below [last out]"
      using tags_below_simps(3) [of "butlast out" "[last out]"] by simp
    with False Pair show ?thesis
      by (simp add: add_text_def tags_below_simps(3) tags_below_retail)
  qed
qed

lemma strip_tags_tags:
  "tag (strip_tags t e) = tag e \<and> tags_below (children (strip_tags t e)) \<subseteq> tags_below (children e) - {t}"
  "tags_below (snd (strip_tags_list t cs st)) \<subseteq> tags_below (snd st) \<union> (tags_below cs - {t})"
proof (induction t e and t cs st rule: strip_tags_strip_tags_list.induct)
  case (1 t tg tx ta a cs)
  then show ?case by (auto simp: tags_below_simps split: prod.splits)
next
  case (2 t st)
  then show ?case by simp
next
  case (3 t tg tx ta a ccs cs st)
  show ?case
  proof (cases "tg = t")
    case True
    from 3(1) [OF True]
    have a: "tags_below (snd (strip_tags_list t ccs (add_text tx st)))
        \<subseteq> tags_below (snd st) \<union> (tags_below ccs - {t})"
      by (simp add: tags_below_add_text)
    from 3(2) [OF True]
    have "tags_below (snd (strip_tags_list t cs
              (add_text ta (strip_tags_list t ccs (add_text tx st)))))
        \<subseteq> tags_below (snd (strip_tags_list t ccs (add_text tx st))) \<union> (tags_below cs - {t})"
      by (simp add: tags_below_add_text)
    with a True show ?thesis by (auto simp: tags_below_simps)
  next
    case False
    from 3(3) [OF False] 3(4) [OF False] False show ?thesis
      by (auto simp: tags_below_simps)
  qed
qed

lemma tags_below_children: "tags_below (children e) = tag ` set (descendants e)"
  by (simp only: tags_below_def descendants_def)

lemma filter_output_tags:
  assumes x: "x \<in> set (descendants (filter_output b))"
  shows "tag x \<noteq> ''done'' \<and> tag x \<noteq> ''div''"
proof -
  let ?s = "strip_elements ''done'' b"
  have f: "filter_output b = strip_tags ''div'' ?s"
    by (simp only: filter_output_def)
  from x have "tag x \<in> tags_below (children (strip_tags ''div'' ?s))"
    unfolding f tags_below_children by (rule imageI)
  with strip_tags_tags(1) [of "''div''" ?s]
  have t: "tag x \<in> tags_below (children ?s)" "tag x \<noteq> ''div''" by blast+
  from t(1) have "\<exists>y \<in> set (descendants ?s). tag x = tag y"
    unfolding tags_below_children by (simp only: image_iff)
  then obtain y where y: "y \<in> set (descendants ?s)" "tag y = tag x"
    by (elim bexE) simp
  from strip_elements_no_tag(1) [of "''done''" b] y have "tag x \<noteq> ''done''"
    by (metis)
  with t(2) show ?thesis by simp
qed

text \<open>
  C3, as the code has it. Whatever the rewriting loop and the wild-text recovery have put
  into the body, no element strictly inside the body that \<^verbatim>\<open>extract_content\<close> returns is
  tagged \<^verbatim>\<open>done\<close>, and none is tagged \<^verbatim>\<open>div\<close>.
\<close>

theorem extract_content_no_done_no_div:
  "\<forall>e \<in> set (descendants (fst (extract_content_end trim cfg recover favor_recall
                                   potential_tags result_body))).
     tag e \<noteq> ''done'' \<and> tag e \<noteq> ''div''"
proof
  fix e
  assume "e \<in> set (descendants (fst (extract_content_end trim cfg recover favor_recall
                                         potential_tags result_body)))"
  then have "\<exists>b. e \<in> set (descendants (filter_output b))"
    unfolding extract_content_end_def Let_def by (auto split: if_splits)
  then show "tag e \<noteq> ''done'' \<and> tag e \<noteq> ''div''"
    using filter_output_tags by blast
qed

theorem extract_content_no_done_no_div_witness:
  "fst (extract_content_end trim_words default_config (\<lambda>tags b. b) False {} marked_body)
     = Element ''body'' (Some ''b'') None []
         [Element ''p'' (Some (replicate 300 CHR ''a'')) (Some ''efgc'') [] [],
          Element ''quote'' (Some ''lm'') (Some ''k'') [] []]
   \<and> list_all (\<lambda>e. tag e \<noteq> ''done'' \<and> tag e \<noteq> ''div'')
        (descendants (fst (extract_content_end trim_words default_config
                             (\<lambda>tags b. b) False {} marked_body)))"
proof -
  have "filter_output marked_body
     = Element ''body'' (Some ''b'') None []
         [Element ''p'' (Some (replicate 300 CHR ''a'')) (Some ''efgc'') [] [],
          Element ''quote'' (Some ''lm'') (Some ''k'') [] []]"
    unfolding filter_output_def marked_body_def
    by (simp add: add_text_def join_text_def)
  moreover have "fst (extract_content_end trim_words default_config (\<lambda>tags b. b) False {}
      marked_body) = filter_output marked_body"
    unfolding extract_content_end_def Let_def by (simp only: if_distrib [of fst] fst_conv if_cancel)
  ultimately show ?thesis
    using extract_content_no_done_no_div [of trim_words default_config "\<lambda>tags b. b" False "{}"
      marked_body]
    by (simp add: list_all_iff)
qed

lemma split_words_append:
  "\<forall>c \<in> set xs. \<not> is_space c \<Longrightarrow> split_words w (xs @ ys) = split_words (w @ xs) ys"
  by (induction xs arbitrary: w) auto

lemma trim_words_two_words:
  assumes "\<not> is_space a" "\<not> is_space b" "0 < m" "0 < n"
  shows "trim_words (replicate m a @ '' '' @ replicate n b) = replicate m a @ '' '' @ replicate n b"
proof -
  have "split_words [] (replicate m a @ CHR '' '' # replicate n b)
      = split_words (replicate m a) (CHR '' '' # replicate n b)"
    using split_words_append [of "replicate m a" "[]" "CHR '' '' # replicate n b"] assms(1)
    by simp
  also have "\<dots> = replicate m a # split_words [] (replicate n b)"
    using assms(3) by (simp add: is_space_def)
  also have "\<dots> = [replicate m a, replicate n b]"
    using split_words_replicate [OF assms(2), of "[]" n] assms(4) by simp
  finally show ?thesis by (simp add: trim_words_def)
qed

lemma should_have_space_replicate:
  "c \<notin> set '' .?!,:;)'' \<Longrightarrow> should_have_space_prior (Some (replicate (Suc n) c))"
  "c \<notin> set '' [('' \<Longrightarrow> should_have_space_next (Some (replicate (Suc n) c))"
  by (auto simp: should_have_space_next_def)

lemma trim_words_spaced_words:
  assumes "\<not> is_space a" "\<not> is_space b" "0 < m" "0 < n"
  shows "trim_words (replicate m a @ '' '' @ '' '' @ replicate n b)
       = replicate m a @ '' '' @ replicate n b"
proof -
  have "split_words [] (replicate m a @ CHR '' '' # CHR '' '' # replicate n b)
      = split_words (replicate m a) (CHR '' '' # CHR '' '' # replicate n b)"
    using split_words_append [of "replicate m a" "[]" "CHR '' '' # CHR '' '' # replicate n b"]
      assms(1) by simp
  also have "\<dots> = replicate m a # split_words [] (replicate n b)"
    using assms(3) by (simp add: is_space_def)
  also have "\<dots> = [replicate m a, replicate n b]"
    using split_words_replicate [OF assms(2), of "[]" n] assms(4) by simp
  finally show ?thesis by (simp add: trim_words_def)
qed

text \<open>
  The claim C3 as written fails for the vocabulary. The children of the candidate
  \<^verbatim>\<open><article><section><p>...</p></section><p>...</p></article>\<close> are rewritten by
  \<^verbatim>\<open>handle_paragraphs_child\<close>; the \<^verbatim>\<open>section\<close> is in \<^verbatim>\<open>tags_to_enumerate\<close>, so it is
  kept, and the loop of \<^verbatim>\<open>extract_content\<close> appends it to the body as it is. The end of
  \<^verbatim>\<open>extract_content\<close> leaves it there, and \<^verbatim>\<open>section\<close> is not in the vocabulary.
\<close>

theorem vocabulary_counterexample:
  "rewrite_candidate plain_rewriter (initial_potential_tags tag_catalog True False False)
     (initial_tags_to_enumerate False) section_article (new_element ''body'') = section_body
   \<and> extract_content_end trim_words default_config (\<lambda>tags b. b) False
       (initial_potential_tags tag_catalog True False False) section_body
     = (section_body, replicate 300 CHR ''a'' @ '' '' @ replicate 300 CHR ''b'', 601, True)
   \<and> Element ''section'' None (Some []) []
         [Element ''p'' (Some (replicate 300 CHR ''a'')) None [] []]
       \<in> set (descendants section_body)
   \<and> ''section'' \<notin> set vocabulary \<and> ''section'' \<noteq> ''body''"
proof -
  have r: "rewrite_candidate plain_rewriter (initial_potential_tags tag_catalog True False False)
     (initial_tags_to_enumerate False) section_article (new_element ''body'') = section_body"
    by code_simp
  have t: "trim_words (join '' '' (itertext section_body))
      = replicate 300 CHR ''a'' @ '' '' @ replicate 300 CHR ''b''"
    using trim_words_spaced_words [of "CHR ''a''" "CHR ''b''" 300 300]
    by (simp add: section_body_def opt_list_def not_space_ab)
  have f: "filter_output section_body = section_body"
    unfolding filter_output_def section_body_def by simp
  have c: "length (children section_body) = 2"
    by (simp add: section_body_def)
  have e: "extract_content_end trim_words default_config (\<lambda>tags b. b) False
       (initial_potential_tags tag_catalog True False False) section_body
     = (section_body, replicate 300 CHR ''a'' @ '' '' @ replicate 300 CHR ''b'', 601, True)"
    unfolding extract_content_end_def Let_def t f c by (simp add: default_config_def)
  have d: "Element ''section'' None (Some []) []
         [Element ''p'' (Some (replicate 300 CHR ''a'')) None [] []]
       \<in> set (descendants section_body)"
    by (simp add: descendants_def section_body_def)
  have v: "''section'' \<notin> set vocabulary \<and> ''section'' \<noteq> ''body''"
    by (simp add: vocabulary_def)
  from r e d v show ?thesis by blast
qed

section \<open>Precision and recall, stage by stage\<close>

lemma rescue_recall_order:
  assumes jt: "\<And>b l t. case ext_justext_rescue ext tree url target_language b l t of
                  (b', t', l', r) \<Rightarrow> l \<le> l' \<and> (\<not> r \<longrightarrow> b' = b)"
    and san: "flag \<Longrightarrow> case ext_sanitize_tree ext body include_formatting include_links
                  include_images include_tables of (b', t', l') \<Rightarrow> l' \<le> len"
  shows "snd (snd (rescue ext cfg tree url target_language False include_formatting
                     include_links include_images include_tables flag (body, temp_text, len)))
       \<le> snd (snd (rescue ext cfg tree url target_language True include_formatting
                     include_links include_images include_tables flag (body, temp_text, len)))"
proof (cases "ext_sanitized_xpath ext body \<noteq> [] \<and> len < MIN_EXTRACTED_SIZE cfg * 10")
  case True
  then show ?thesis by (simp add: rescue_def)
next
  case False
  obtain b' t' l' r where j: "ext_justext_rescue ext tree url target_language body len temp_text
      = (b', t', l', r)"
    by (metis prod_cases4)
  from jt [where b = body and l = len and t = temp_text] j have l: "len \<le> l'" and b: "\<not> r \<Longrightarrow> b' = body"
    by auto
  show ?thesis
  proof (cases "len < MIN_EXTRACTED_SIZE cfg")
    case True
    with False show ?thesis by (auto simp: rescue_def)
  next
    case nm: False
    show ?thesis
    proof (cases flag)
      case True
      obtain sb st sl where s: "ext_sanitize_tree ext body include_formatting include_links
          include_images include_tables = (sb, st, sl)"
        by (metis prod_cases3)
      from san [OF True] s have "sl \<le> len" by simp
      with False nm True j l b s show ?thesis
        by (cases r) (auto simp: rescue_def)
    next
      case nf: False
      with False nm j l show ?thesis by (auto simp: rescue_def)
    qed
  qed
qed

lemma compare_extraction_len_order:
  assumes "\<not> len_text > MIN_EXTRACTED_SIZE cfg * 10"
    and "\<And>b l t. case ext_justext_rescue ext tree url target_language b l t of
            (b', t', l', r) \<Rightarrow> l \<le> l' \<and> (\<not> r \<longrightarrow> b' = b)"
    and "\<And>b. case ext_sanitize_tree ext b include_formatting include_links include_images
            include_tables of
            (b', t', l') \<Rightarrow> l' \<le> int (length (ext_trim ext (join '' '' (itertext b))))"
  shows "snd (snd (compare_extraction ext cfg tree backup_tree url body temp_text len_text
                     target_language favor_precision False include_formatting include_links
                     include_images include_tables))
       \<le> snd (snd (compare_extraction ext cfg tree backup_tree url body temp_text len_text
                     target_language favor_precision True include_formatting include_links
                     include_images include_tables))"
proof -
  let ?B2 = "ext_try_readability ext backup_tree url"
  let ?T2 = "ext_trim ext (join '' '' (itertext ?B2))"
  let ?flag = "algo_flag cfg body len_text (int (length ?T2))"
  have san: "?flag \<Longrightarrow> case ext_sanitize_tree ext ?B2 include_formatting include_links
      include_images include_tables of (b', t', l') \<Rightarrow> l' \<le> int (length ?T2)"
    using assms(3) [where b = ?B2] by simp
  have "snd (snd (rescue ext cfg tree url target_language False include_formatting
                     include_links include_images include_tables ?flag
                     (if ?flag then (?B2, ?T2, int (length ?T2)) else (body, temp_text, len_text))))
       \<le> snd (snd (rescue ext cfg tree url target_language True include_formatting
                     include_links include_images include_tables ?flag
                     (if ?flag then (?B2, ?T2, int (length ?T2)) else (body, temp_text, len_text))))"
  proof (cases ?flag)
    case True
    then show ?thesis
      using rescue_recall_order [where ext = ext and tree = tree and url = url
          and target_language = target_language and flag = ?flag and body = ?B2
          and include_formatting = include_formatting and include_links = include_links
          and include_images = include_images and include_tables = include_tables
          and len = "int (length ?T2)" and cfg = cfg and temp_text = ?T2]
        assms(2) san by simp
  next
    case False
    then show ?thesis
      using rescue_recall_order [where ext = ext and tree = tree and url = url
          and target_language = target_language and flag = ?flag and body = body
          and include_formatting = include_formatting and include_links = include_links
          and include_images = include_images and include_tables = include_tables
          and len = len_text and cfg = cfg and temp_text = temp_text]
        assms(2) by simp
  qed
  then show ?thesis
    using assms(1) by (simp add: compare_extraction_def Let_def)
qed

lemma rescue_consistent:
  assumes len: "len = int (length temp_text)"
    and jt: "\<And>b l t. case ext_justext_rescue ext tree url target_language b l t of
                (b', t', l', r) \<Rightarrow> (r \<longrightarrow> l < l' \<and> l' = int (length t'))
                                   \<and> (\<not> r \<longrightarrow> (b', t', l') = (b, t, l))"
    and san: "\<And>b. case ext_sanitize_tree ext b include_formatting include_links include_images
                include_tables of (b', t', l') \<Rightarrow> l' = int (length t')"
  shows "case rescue ext cfg tree url target_language favor_recall include_formatting
                include_links include_images include_tables flag (body, temp_text, len) of
           (b, t, l) \<Rightarrow> l = int (length t)"
proof -
  obtain b0 t0 l0 r0 where j0: "ext_justext_rescue ext tree url target_language body 0 [] = (b0, t0, l0, r0)"
    by (metis prod_cases4)
  obtain b1 t1 l1 r1 where j1: "ext_justext_rescue ext tree url target_language body len temp_text = (b1, t1, l1, r1)"
    by (metis prod_cases4)
  from jt [where b = body and l = 0 and t = "[]"] j0 have c0: "r0 \<Longrightarrow> l0 = int (length t0)" by simp
  from jt [where b = body and l = len and t = temp_text] j1 len have c1: "l1 = int (length t1)" by (cases r1) auto
  have s: "\<And>b. case ext_sanitize_tree ext b include_formatting include_links include_images
                include_tables of (b', t', l') \<Rightarrow> l' = int (length t')" by (rule san)
  show ?thesis
    unfolding rescue_def using j0 j1 c0 c1 len s [where b = body] s [where b = b0] s [where b = b1]
    by (auto split: prod.splits if_splits)
qed

lemma compare_extraction_consistent:
  assumes len: "len_text = int (length temp_text)"
    and jt: "\<And>b l t. case ext_justext_rescue ext tree url target_language b l t of
                (b', t', l', r) \<Rightarrow> (r \<longrightarrow> l < l' \<and> l' = int (length t'))
                                   \<and> (\<not> r \<longrightarrow> (b', t', l') = (b, t, l))"
    and san: "\<And>b. case ext_sanitize_tree ext b include_formatting include_links include_images
                include_tables of (b', t', l') \<Rightarrow> l' = int (length t')"
  shows "snd (snd (compare_extraction ext cfg tree backup_tree url body temp_text len_text
                     target_language favor_precision favor_recall include_formatting
                     include_links include_images include_tables))
       = int (length (fst (snd (compare_extraction ext cfg tree backup_tree url body temp_text
                     len_text target_language favor_precision favor_recall include_formatting
                     include_links include_images include_tables))))"
proof (cases "favor_recall \<and> len_text > MIN_EXTRACTED_SIZE cfg * 10")
  case True
  then show ?thesis using len by (simp add: compare_extraction_def)
next
  case False
  let ?B2 = "ext_try_readability ext backup_tree url"
  let ?T2 = "ext_trim ext (join '' '' (itertext ?B2))"
  let ?flag = "algo_flag cfg body len_text (int (length ?T2))"
  define R where "R = rescue ext cfg tree url target_language favor_recall include_formatting
                include_links include_images include_tables ?flag
                (if ?flag then (?B2, ?T2, int (length ?T2)) else (body, temp_text, len_text))"
  have "case R of (b, t, l) \<Rightarrow> l = int (length t)"
  proof (cases ?flag)
    case True
    then show ?thesis
      unfolding R_def
      using rescue_consistent [where len = "int (length ?T2)" and temp_text = ?T2
          and ext = ext and tree = tree and url = url and target_language = target_language
          and include_formatting = include_formatting and include_links = include_links
          and include_images = include_images and include_tables = include_tables
          and body = ?B2 and flag = ?flag and cfg = cfg and favor_recall = favor_recall]
        jt san by simp
  next
    case f: False
    then show ?thesis
      unfolding R_def
      using rescue_consistent [where len = len_text and temp_text = temp_text
          and ext = ext and tree = tree and url = url and target_language = target_language
          and include_formatting = include_formatting and include_links = include_links
          and include_images = include_images and include_tables = include_tables
          and body = body and flag = ?flag and cfg = cfg and favor_recall = favor_recall]
        jt san len by simp
  qed
  then have "snd (snd R) = int (length (fst (snd R)))" by (cases R) auto
  moreover have "compare_extraction ext cfg tree backup_tree url body temp_text len_text
                     target_language favor_precision favor_recall include_formatting
                     include_links include_images include_tables = R"
    unfolding R_def compare_extraction_def Let_def by (simp only: if_not_P [OF False])
  ultimately show ?thesis by simp
qed

lemma arbiter_recall_text_order:
  assumes nb: "\<not> len_text > MIN_EXTRACTED_SIZE cfg * 10"
    and len: "len_text = int (length temp_text)"
    and jt: "\<And>b l t. case ext_justext_rescue ext tree url target_language b l t of
                (b', t', l', r) \<Rightarrow> (r \<longrightarrow> l < l' \<and> l' = int (length t'))
                                   \<and> (\<not> r \<longrightarrow> (b', t', l') = (b, t, l))"
    and san: "\<And>b. case ext_sanitize_tree ext b include_formatting include_links include_images
                include_tables of
                (b', t', l') \<Rightarrow> l' = int (length t')
                  \<and> length t' \<le> length (ext_trim ext (join '' '' (itertext b)))"
  shows "length (fst (snd (compare_extraction ext cfg tree backup_tree url body temp_text
                     len_text target_language favor_precision False include_formatting
                     include_links include_images include_tables)))
       \<le> length (fst (snd (compare_extraction ext cfg tree backup_tree url body temp_text
                     len_text target_language favor_precision True include_formatting
                     include_links include_images include_tables)))"
proof -
  have jt': "\<And>b l t. case ext_justext_rescue ext tree url target_language b l t of
            (b', t', l', r) \<Rightarrow> l \<le> l' \<and> (\<not> r \<longrightarrow> b' = b)"
  proof -
    fix b l t
    show "case ext_justext_rescue ext tree url target_language b l t of
            (b', t', l', r) \<Rightarrow> l \<le> l' \<and> (\<not> r \<longrightarrow> b' = b)"
      using jt [where b = b and l = l and t = t] by (auto split: prod.splits)
  qed
  have san1: "\<And>b. case ext_sanitize_tree ext b include_formatting include_links include_images
            include_tables of
            (b', t', l') \<Rightarrow> l' \<le> int (length (ext_trim ext (join '' '' (itertext b))))"
  proof -
    fix b
    show "case ext_sanitize_tree ext b include_formatting include_links include_images
            include_tables of
            (b', t', l') \<Rightarrow> l' \<le> int (length (ext_trim ext (join '' '' (itertext b))))"
      using san [where b = b] by (auto split: prod.splits)
  qed
  have san2: "\<And>b. case ext_sanitize_tree ext b include_formatting include_links include_images
                include_tables of (b', t', l') \<Rightarrow> l' = int (length t')"
  proof -
    fix b
    show "case ext_sanitize_tree ext b include_formatting include_links include_images
                include_tables of (b', t', l') \<Rightarrow> l' = int (length t')"
      using san [where b = b] by (auto split: prod.splits)
  qed
  from compare_extraction_len_order [where ext = ext and cfg = cfg and tree = tree
      and url = url and target_language = target_language and len_text = len_text
      and include_formatting = include_formatting and include_links = include_links
      and include_images = include_images and include_tables = include_tables
      and backup_tree = backup_tree and body = body and temp_text = temp_text
      and favor_precision = favor_precision, OF nb jt' san1]
    compare_extraction_consistent [where ext = ext and cfg = cfg and tree = tree
      and url = url and target_language = target_language and len_text = len_text
      and include_formatting = include_formatting and include_links = include_links
      and include_images = include_images and include_tables = include_tables
      and backup_tree = backup_tree and body = body and temp_text = temp_text
      and favor_precision = favor_precision and favor_recall = False, OF len jt san2]
    compare_extraction_consistent [where ext = ext and cfg = cfg and tree = tree
      and url = url and target_language = target_language and len_text = len_text
      and include_formatting = include_formatting and include_links = include_links
      and include_images = include_images and include_tables = include_tables
      and backup_tree = backup_tree and body = body and temp_text = temp_text
      and favor_precision = favor_precision and favor_recall = True, OF len jt san2]
  show ?thesis by simp
qed

lemma itertext_children: "itertext e = opt_list (text' e) @ texts_of (children e)"
  by (cases e) (simp add: texts_of_def)

lemma texts_of_simps:
  "texts_of [] = []"
  "texts_of (c # cs) = itertext c @ opt_list (tail c) @ texts_of cs"
  "texts_of (xs @ ys) = texts_of xs @ texts_of ys"
  by (simp_all add: texts_of_def)

lemma tail_remove_paths: "tail (remove_paths ds e) = tail e"
  by (cases e) simp

lemma remove_paths_shrinks:
  "length (concat (itertext (remove_paths ds e))) \<le> length (concat (itertext e))"
  "length (concat (texts_of (remove_paths_list ds i cs))) \<le> length (concat (texts_of cs))"
proof (induction ds e and ds i cs rule: remove_paths_remove_paths_list.induct)
  case (1 ds t tx ta a cs)
  then show ?case by (simp add: itertext_children)
next
  case (2 ds i)
  then show ?case by simp
next
  case (3 ds i c cs)
  then show ?case by (auto simp: texts_of_simps tail_remove_paths)
qed

lemma delete_by_link_density_shrinks:
  "delete_by_link_density lt trim hp s tagname bt = Inr s' \<Longrightarrow>
     length (text_content s') \<le> length (text_content s)"
  using remove_paths_shrinks(1) [of "deletions_of lt trim s tagname bt" s]
  by (auto simp: delete_by_link_density_def Let_def text_content_def split: if_splits)

lemma prune_tables_shrinks:
  "length (concat (case fst (prune_tables test e) of
                      None \<Rightarrow> [] | Some e' \<Rightarrow> itertext e' @ opt_list (tail e')))
     \<le> length (concat (itertext e @ opt_list (tail e)))"
  "length (concat (texts_of (fst (prune_tables_list test cs)))) \<le> length (concat (texts_of cs))"
proof (induction test e and test cs rule: prune_tables_prune_tables_list.induct)
  case (1 test t tx ta a cs)
  then show ?case by (auto simp: itertext_children split: prod.splits)
next
  case (2 test)
  then show ?case by simp
next
  case (3 test c cs)
  obtain r stop where r: "prune_tables test c = (r, stop)" by (cases "prune_tables test c")
  obtain cs' stop' where cs': "prune_tables_list test cs = (cs', stop')"
    by (cases "prune_tables_list test cs")
  from 3(1) r
  have a: "length (concat (case r of None \<Rightarrow> [] | Some e' \<Rightarrow> itertext e' @ opt_list (tail e')))
     \<le> length (concat (itertext c @ opt_list (tail c)))" by simp
  show ?case
  proof (cases stop)
    case True
    with r a show ?thesis by (auto simp: texts_of_simps split: option.splits)
  next
    case False
    from 3(2) [OF r [symmetric] False] cs'
    have "length (concat (texts_of cs')) \<le> length (concat (texts_of cs))" by simp
    with False r cs' a show ?thesis by (auto simp: texts_of_simps split: option.splits)
  qed
qed

lemma delete_step_shrinks:
  "delete_step lt trim tagname bt (s, hp) = Inr (s', hp') \<Longrightarrow>
     length (text_content s') \<le> length (text_content s)"
  using delete_by_link_density_shrinks [of lt trim hp s tagname bt]
  by (auto simp: delete_step_def bind_py_def split: sum.splits)

lemma table_step_shrinks:
  "table_step test (s, hp) = Inr (s', hp') \<Longrightarrow>
     length (text_content s') \<le> length (text_content s)"
  using prune_tables_shrinks(2) [of test "children s"]
  by (auto simp: table_step_def text_content_def itertext_children split: if_splits)

lemma link_density_pruning_shrinks:
  assumes "link_density_pruning lt tt trim fp pt (s, hp) = Inr (s', hp')"
  shows "length (text_content s') \<le> length (text_content s)"
proof -
  from assms obtain s1 h1 s2 h2 s3 h3 s4 h4 where
    1: "delete_step lt trim ''div'' True (s, hp) = Inr (s1, h1)" and
    2: "delete_step lt trim ''list'' False (s1, h1) = Inr (s2, h2)" and
    3: "delete_step lt trim ''p'' False (s2, h2) = Inr (s3, h3)" and
    4: "(if fp then delete_step lt trim ''head'' False (s3, h3) else Inr (s3, h3)) = Inr (s4, h4)" and
    5: "(if ''table'' \<in> pt \<or> fp then table_step tt (s4, h4) else Inr (s4, h4)) = Inr (s', hp')"
    by (auto simp: link_density_pruning_def bind_py_def split: sum.splits)
  from 4 have "length (text_content s4) \<le> length (text_content s3)"
    using delete_step_shrinks by (auto split: if_splits)
  moreover from 5 have "length (text_content s') \<le> length (text_content s4)"
    using table_step_shrinks by (auto split: if_splits)
  ultimately show ?thesis
    using delete_step_shrinks [OF 1] delete_step_shrinks [OF 2] delete_step_shrinks [OF 3]
    by linarith
qed

lemma not_space_c: "\<not> is_space CHR ''c''"
  by (simp add: is_space_def)

text \<open>
  The claim C9 as written fails on both sides. In the arbiter, for the same custom result
  of 3000 characters and a readability result of 7000 characters, the default flags adopt
  the readability text and \<open>favor_recall\<close> returns the custom text, which is shorter. And
  with \<open>favor_precision\<close> the text can be longer than with the default flags: the pruning
  of the candidate \<^verbatim>\<open><article><head><ref>c...</ref></head><p>a...</p></article>\<close> leaves
  it as it is with the default flags and deletes the title with \<open>favor_precision\<close>; the
  links are stripped and the children rewritten, which gives a body of 851 characters and
  one of 600 characters; with a readability result of 1300 characters the arbiter keeps
  the 851 characters of the default flags, and replaces the 600 characters of
  \<open>favor_precision\<close> by the 1300 characters of readability.
\<close>

theorem precision_recall_counterexample:
  "length (fst (snd (compare_extraction (plain_external readable_7000) default_config empty_doc
               empty_doc None custom_3000 (replicate 3000 CHR ''a'') 3000 None False True
               False False False True))) = 3000
   \<and> length (fst (snd (compare_extraction (plain_external readable_7000) default_config
               empty_doc empty_doc None custom_3000 (replicate 3000 CHR ''a'') 3000 None False
               False False False False True))) = 7000
   \<and> link_density_pruning links_only_test (\<lambda>e. False) trim_words False
       (initial_potential_tags tag_catalog True False False) (linked_title_article, True)
     = Inr (linked_title_article, True)
   \<and> link_density_pruning links_only_test (\<lambda>e. False) trim_words True
       (initial_potential_tags tag_catalog True False False) (linked_title_article, True)
     = Inr (paragraph_article, True)
   \<and> rewrite_candidate plain_rewriter (initial_potential_tags tag_catalog True False False)
       (initial_tags_to_enumerate False)
       (strip_tags ''span'' (strip_tags ''ref'' linked_title_article)) (new_element ''body'')
     = titled_body
   \<and> rewrite_candidate plain_rewriter (initial_potential_tags tag_catalog True False False)
       (initial_tags_to_enumerate False)
       (strip_tags ''span'' (strip_tags ''ref'' paragraph_article)) (new_element ''body'')
     = paragraph_body
   \<and> extract_content_end trim_words default_config (\<lambda>tags b. b) False
       (initial_potential_tags tag_catalog True False False) titled_body
     = (titled_body, replicate 250 CHR ''c'' @ '' '' @ replicate 600 CHR ''a'', 851, True)
   \<and> extract_content_end trim_words default_config (\<lambda>tags b. b) False
       (initial_potential_tags tag_catalog True False False) paragraph_body
     = (paragraph_body, replicate 600 CHR ''a'', 600, True)
   \<and> length (fst (snd (compare_extraction (plain_external readable_1300) default_config
               empty_doc empty_doc None titled_body
               (replicate 250 CHR ''c'' @ '' '' @ replicate 600 CHR ''a'') 851 None False False
               False False False True))) = 851
   \<and> length (fst (snd (compare_extraction (plain_external readable_1300) default_config
               empty_doc empty_doc None paragraph_body (replicate 600 CHR ''a'') 600 None True
               False False False False True))) = 1300"
proof -
  have r1: "length (fst (snd (compare_extraction (plain_external readable_7000) default_config
               empty_doc empty_doc None custom_3000 (replicate 3000 CHR ''a'') 3000 None False
               True False False False True))) = 3000"
    by (simp add: compare_extraction_def default_config_def)
  have r2: "length (fst (snd (compare_extraction (plain_external readable_7000) default_config
               empty_doc empty_doc None custom_3000 (replicate 3000 CHR ''a'') 3000 None False
               False False False False True))) = 7000"
    by (simp add: compare_extraction_def plain_external_def readable_7000_def opt_list_def
        trim_words_replicate not_space_ab algo_flag_def default_config_def rescue_def Let_def)
  have p1: "link_density_pruning links_only_test (\<lambda>e. False) trim_words False
       (initial_potential_tags tag_catalog True False False) (linked_title_article, True)
     = Inr (linked_title_article, True)"
    by code_simp
  have p2: "link_density_pruning links_only_test (\<lambda>e. False) trim_words True
       (initial_potential_tags tag_catalog True False False) (linked_title_article, True)
     = Inr (paragraph_article, True)"
    by code_simp
  have w1: "rewrite_candidate plain_rewriter (initial_potential_tags tag_catalog True False False)
       (initial_tags_to_enumerate False)
       (strip_tags ''span'' (strip_tags ''ref'' linked_title_article)) (new_element ''body'')
     = titled_body"
    by code_simp
  have w2: "rewrite_candidate plain_rewriter (initial_potential_tags tag_catalog True False False)
       (initial_tags_to_enumerate False)
       (strip_tags ''span'' (strip_tags ''ref'' paragraph_article)) (new_element ''body'')
     = paragraph_body"
    by code_simp
  have t1: "trim_words (join '' '' (itertext titled_body))
      = replicate 250 CHR ''c'' @ '' '' @ replicate 600 CHR ''a''"
    using trim_words_two_words [of "CHR ''c''" "CHR ''a''" 250 600]
    by (simp add: titled_body_def opt_list_def not_space_ab not_space_c)
  have t2: "trim_words (join '' '' (itertext paragraph_body)) = replicate 600 CHR ''a''"
    by (simp add: paragraph_body_def opt_list_def trim_words_replicate not_space_ab)
  have f1: "filter_output titled_body = titled_body"
    unfolding filter_output_def titled_body_def by simp
  have f2: "filter_output paragraph_body = paragraph_body"
    unfolding filter_output_def paragraph_body_def by simp
  have c1: "length (children titled_body) = 2" by (simp add: titled_body_def)
  have c2: "length (children paragraph_body) = 1" by (simp add: paragraph_body_def)
  have e1: "extract_content_end trim_words default_config (\<lambda>tags b. b) False
       (initial_potential_tags tag_catalog True False False) titled_body
     = (titled_body, replicate 250 CHR ''c'' @ '' '' @ replicate 600 CHR ''a'', 851, True)"
    unfolding extract_content_end_def Let_def t1 f1 c1 by (simp add: default_config_def)
  have e2: "extract_content_end trim_words default_config (\<lambda>tags b. b) False
       (initial_potential_tags tag_catalog True False False) paragraph_body
     = (paragraph_body, replicate 600 CHR ''a'', 600, True)"
    unfolding extract_content_end_def Let_def t2 f2 c2 by (simp add: default_config_def)
  have x1: "xpath_all ''p'' titled_body \<noteq> []" "length (xpath_all ''table'' titled_body) = 0"
    by (simp_all add: xpath_all_def titled_body_def)
  have a1: "length (fst (snd (compare_extraction (plain_external readable_1300) default_config
               empty_doc empty_doc None titled_body
               (replicate 250 CHR ''c'' @ '' '' @ replicate 600 CHR ''a'') 851 None False False
               False False False True))) = 851"
    using x1
    by (simp add: compare_extraction_def plain_external_def readable_1300_def opt_list_def
        trim_words_replicate not_space_ab algo_flag_def default_config_def rescue_def Let_def
        no_p_or_quote_text_def)
  have a2: "length (fst (snd (compare_extraction (plain_external readable_1300) default_config
               empty_doc empty_doc None paragraph_body (replicate 600 CHR ''a'') 600 None True
               False False False False True))) = 1300"
    by (simp add: compare_extraction_def plain_external_def readable_1300_def opt_list_def
        trim_words_replicate not_space_ab algo_flag_def default_config_def rescue_def Let_def)
  from r1 r2 p1 p2 w1 w2 e1 e2 a1 a2 show ?thesis by blast
qed

text \<open>
  C9, amended stage by stage. In the arbiter, for the same custom result whose text is not
  longer than \<open>10 \<times> MIN_EXTRACTED_SIZE\<close>, the text returned with \<open>favor_recall\<close> is at
  least as long as the text returned without it, when the paragraph classifier either
  succeeds with a longer text or returns what it was given, and the sanitizer returns a
  text that is not longer than the text of the body it was given. In the content
  extractor, the removal by link density, to which \<open>favor_precision\<close> adds the \<^verbatim>\<open>head\<close>
  elements and the tables, never makes the text of a candidate longer.
\<close>

theorem precision_recall_by_stage:
  assumes "\<not> len_text > MIN_EXTRACTED_SIZE cfg * 10"
    and "len_text = int (length temp_text)"
    and "\<And>b l t. case ext_justext_rescue ext tree url target_language b l t of
                (b', t', l', r) \<Rightarrow> (r \<longrightarrow> l < l' \<and> l' = int (length t'))
                                   \<and> (\<not> r \<longrightarrow> (b', t', l') = (b, t, l))"
    and "\<And>b. case ext_sanitize_tree ext b include_formatting include_links include_images
                include_tables of
                (b', t', l') \<Rightarrow> l' = int (length t')
                  \<and> length t' \<le> length (ext_trim ext (join '' '' (itertext b)))"
  shows "length (fst (snd (compare_extraction ext cfg tree backup_tree url body temp_text
                     len_text target_language favor_precision False include_formatting
                     include_links include_images include_tables)))
       \<le> length (fst (snd (compare_extraction ext cfg tree backup_tree url body temp_text
                     len_text target_language favor_precision True include_formatting
                     include_links include_images include_tables)))
       \<and> (\<forall>link_density_test link_density_test_tables trim flag potential_tags subtree
              has_parent subtree' has_parent'.
            link_density_pruning link_density_test link_density_test_tables trim flag
              potential_tags (subtree, has_parent) = Inr (subtree', has_parent')
            \<longrightarrow> length (text_content subtree') \<le> length (text_content subtree))"
  using arbiter_recall_text_order [OF assms] link_density_pruning_shrinks by blast

theorem precision_recall_by_stage_witness:
  "length (fst (snd (compare_extraction (plain_external readable_700) default_config empty_doc
               empty_doc None list_and_image_body (replicate 600 CHR ''a'') 600 None False
               False False False True True)))
   \<le> length (fst (snd (compare_extraction (plain_external readable_700) default_config
               empty_doc empty_doc None list_and_image_body (replicate 600 CHR ''a'') 600 None
               False True False False True True)))
   \<and> length (text_content paragraph_article) \<le> length (text_content linked_title_article)"
proof -
  have a: "\<not> (600::int) > MIN_EXTRACTED_SIZE default_config * 10"
    by (simp add: default_config_def)
  have l: "(600::int) = int (length (replicate 600 CHR ''a''))" by simp
  have b: "\<And>b l t. case ext_justext_rescue (plain_external readable_700) empty_doc None None
              b l t of (b', t', l', r) \<Rightarrow> (r \<longrightarrow> l < l' \<and> l' = int (length t'))
                                   \<and> (\<not> r \<longrightarrow> (b', t', l') = (b, t, l))"
    by (simp add: plain_external_def)
  have c: "\<And>b. case ext_sanitize_tree (plain_external readable_700) b False False True True of
      (b', t', l') \<Rightarrow> l' = int (length t')
        \<and> length t' \<le> length (ext_trim (plain_external readable_700) (join '' '' (itertext b)))"
    by (simp add: plain_external_def)
  have p: "link_density_pruning links_only_test (\<lambda>e. False) trim_words True
       (initial_potential_tags tag_catalog True False False) (linked_title_article, True)
     = Inr (paragraph_article, True)"
    by code_simp
  note t = precision_recall_by_stage [where len_text = 600 and cfg = default_config
      and ext = "plain_external readable_700" and tree = empty_doc and url = None
      and target_language = None and include_formatting = False and include_links = False
      and include_images = True and include_tables = True and backup_tree = empty_doc
      and body = list_and_image_body and temp_text = "replicate 600 CHR ''a''"
      and favor_precision = False, OF a l b c]
  from t [THEN conjunct1] t [THEN conjunct2, rule_format, OF p] show ?thesis by simp
qed

section \<open>Properties of the pipeline\<close>

text \<open>
  A run of \<open>extract\<close> with its defaults on \<^verbatim>\<open><html><body><p>Hi</p></body></html>\<close>,
  and on an input that the loader does not parse.
\<close>

lemma extract_plain_run:
  "extract_py plain_collaborators (plain_external short_body) default_config None short_html
     default_options = Inr (Some ''Hi'')
   \<and> extract_py plain_collaborators (plain_external short_body) default_config None []
       default_options = Inr None"
  by code_simp

text \<open>
  \<^verbatim>\<open>bare_extraction\<close> catches \<^verbatim>\<open>ValueError\<close> only (lines 1004 to 1006): an exception of
  the \<^verbatim>\<open>try\<close> block leaves \<open>extract\<close> unless it is a \<^verbatim>\<open>ValueError\<close>, which gives
  \<^verbatim>\<open>None\<close>.
\<close>

lemma extract_reraises:
  assumes "try_block col ext (c_use_config col settingsfile cfg) filecontent opts None = Inl e"
  shows "extract_py col ext cfg settingsfile filecontent opts
       = (if e = ValueError then Inr None else Inl e)"
  using assms by (simp add: extract_py_def bare_extraction_def bind_py_def Let_def)

text \<open>
  The rejections that the claim C4 lists raise \<^verbatim>\<open>ValueError\<close> in the \<^verbatim>\<open>try\<close> block: an
  input that the loader does not parse, a wrong language in the HTML attributes, a
  blacklisted URL, missing core metadata, a tree that is too large, a text that is too
  small, a duplicate, and a text in the wrong language. Here \<open>b'\<close> is the body after the
  \<^verbatim>\<open>hi\<close> tags are stripped from a tree that is too large.
\<close>

lemma rejections_raise_value_error:
  "(c_load_html col filecontent = None \<longrightarrow>
      try_block col ext cfg filecontent opts None = Inl ValueError)
   \<and> (\<forall>tree l. c_load_html col filecontent = Some tree \<and> opt_target_language opts = Some l
          \<and> \<not> c_check_html_lang col tree l \<longrightarrow>
          try_block col ext cfg filecontent opts None = Inl ValueError)
   \<and> (\<forall>tree u owm. opt_output_format opts \<noteq> ''txt''
          \<and> c_extract_metadata col tree (opt_url opts) (opt_no_fallback opts) ''url''
              = Some (PyStr u)
          \<and> u \<in> opt_url_blacklist opts \<longrightarrow>
          metadata_step col opts owm tree = Inl ValueError)
   \<and> (\<forall>tree u d t. opt_output_format opts \<noteq> ''txt''
          \<and> c_extract_metadata col tree (opt_url opts) (opt_no_fallback opts) ''url'' = Some u
          \<and> c_extract_metadata col tree (opt_url opts) (opt_no_fallback opts) ''date'' = Some d
          \<and> c_extract_metadata col tree (opt_url opts) (opt_no_fallback opts) ''title'' = Some t
          \<and> (d = PyNone \<or> t = PyNone \<or> u = PyNone) \<longrightarrow>
          metadata_step col opts True tree = Inl ValueError)
   \<and> (\<forall>d b t n tc lc.
          (let b' = (case opt_max_tree_size opts of
                       None \<Rightarrow> b
                     | Some m \<Rightarrow> if int (length (children b)) > m then strip_tags ''hi'' b
                                 else b)
           in (\<exists>m. opt_max_tree_size opts = Some m \<and> int (length (children b')) > m)
              \<or> (n < MIN_OUTPUT_SIZE cfg \<and> lc < MIN_OUTPUT_COMM_SIZE cfg)
              \<or> (opt_deduplicate opts \<and> c_duplicate_test col b' cfg)
              \<or> (\<exists>l. opt_target_language opts = Some l \<and> c_language_filter col t tc l d)
              \<longrightarrow> final_checks col cfg opts d b t (PyInt n) tc lc = Inl ValueError))"
proof -
  have 3: "try_block col ext cfg filecontent opts None = Inl ValueError"
    if "c_load_html col filecontent = None"
    using that by (simp add: try_block_def)
  have 4: "try_block col ext cfg filecontent opts None = Inl ValueError"
    if "c_load_html col filecontent = Some tree \<and> opt_target_language opts = Some l
          \<and> \<not> c_check_html_lang col tree l" for tree l
    using that by (simp add: try_block_def Let_def)
  have 5: "metadata_step col opts owm tree = Inl ValueError"
    if "opt_output_format opts \<noteq> ''txt''
          \<and> c_extract_metadata col tree (opt_url opts) (opt_no_fallback opts) ''url''
              = Some (PyStr u)
          \<and> u \<in> opt_url_blacklist opts" for tree u owm
    using that by (simp add: metadata_step_def Let_def bind_py_def getitem_def)
  have 6: "metadata_step col opts True tree = Inl ValueError"
    if "opt_output_format opts \<noteq> ''txt''
          \<and> c_extract_metadata col tree (opt_url opts) (opt_no_fallback opts) ''url'' = Some u
          \<and> c_extract_metadata col tree (opt_url opts) (opt_no_fallback opts) ''date'' = Some d
          \<and> c_extract_metadata col tree (opt_url opts) (opt_no_fallback opts) ''title'' = Some t
          \<and> (d = PyNone \<or> t = PyNone \<or> u = PyNone)" for tree u d t
    using that by (auto simp: metadata_step_def Let_def bind_py_def getitem_def)
  have 7: "let b' = (case opt_max_tree_size opts of
                       None \<Rightarrow> b
                     | Some m \<Rightarrow> if int (length (children b)) > m then strip_tags ''hi'' b
                                 else b)
           in (\<exists>m. opt_max_tree_size opts = Some m \<and> int (length (children b')) > m)
              \<or> (n < MIN_OUTPUT_SIZE cfg \<and> lc < MIN_OUTPUT_COMM_SIZE cfg)
              \<or> (opt_deduplicate opts \<and> c_duplicate_test col b' cfg)
              \<or> (\<exists>l. opt_target_language opts = Some l \<and> c_language_filter col t tc l d)
              \<longrightarrow> final_checks col cfg opts d b t (PyInt n) tc lc = Inl ValueError"
    for d b t n tc lc
    by (auto simp: final_checks_def Let_def bind_py_def py_less_def split: option.splits)
  from 3 4 5 6 7 show ?thesis by blast
qed

text \<open>
  An exception of the content extraction other than \<^verbatim>\<open>ValueError\<close> reaches the caller of
  \<open>extract\<close>: a run with the collaborators above, where the content extraction raises
  \<^verbatim>\<open>TypeError\<close>, and one where it raises \<^verbatim>\<open>ValueError\<close>.
\<close>

lemma content_exception_surfaces:
  "extract_py
     (plain_collaborators\<lparr>c_extract_content :=
        (\<lambda>tree fp fr tables images links dedup cfg raw. Inl TypeError)\<rparr>)
     (plain_external short_body) default_config None short_html default_options
   = Inl TypeError
   \<and> extract_py
       (plain_collaborators\<lparr>c_extract_content :=
          (\<lambda>tree fp fr tables images links dedup cfg raw. Inl ValueError)\<rparr>)
       (plain_external short_body) default_config None short_html default_options
     = Inr None"
  by code_simp

section \<open>A link in a table cell\<close>

text \<open>
  \<^verbatim>\<open>handle_paragraphs_child\<close> hands a table to \<^verbatim>\<open>handle_table\<close> and returns what it
  returns (lines 302 and 303), at the top of a candidate and below it.
\<close>

lemma table_goes_to_handle_table:
  assumes "tag child = ''table''"
  shows "handle_paragraphs_child R potential_tags tags_to_enumerate child is_root
           is_last_of_root has_tail next_text
         = r_handle_table R child potential_tags"
  using assms by (cases child) (simp add: start_element_def Let_def)


end
